theory Spec2Isabelle
  imports Complex_Main "HOL-Library.Sublist"
begin

section \<open>Python values shared by the modules\<close>

text \<open>
  Exceptions are values. Every \<^verbatim>\<open>raise\<close> of the source and every exception of a
  library call that the source relies on is a constructor here; a function that can raise
  returns \<open>error + 'a\<close> with \<open>Inl\<close> for the exception.
\<close>

datatype error =
    ValueError | TypeError | KeyError | IndexError | AttributeError | OverflowError
  | OSError | PermissionError | JSONDecodeError | NotFittedError | DatabaseError

text \<open>Sequence indexing with a non-negative index: out of range raises \<^verbatim>\<open>IndexError\<close>.\<close>

definition nth_err :: "'a list \<Rightarrow> nat \<Rightarrow> error + 'a" where
  "nth_err xs i = (if i < length xs then Inr (xs ! i) else Inl IndexError)"

text \<open>\<^verbatim>\<open>sep.join(parts)\<close>.\<close>

fun join :: "string \<Rightarrow> string list \<Rightarrow> string" where
  "join sep [] = []"
| "join sep [x] = x"
| "join sep (x # y # ys) = x @ sep @ join sep (y # ys)"

section \<open>config.py: the connection settings\<close>

record Config =
  server :: string
  database :: string
  auth :: string
  username :: "string option"
  password :: "string option"
  odbc_driver :: "string option"
  encrypt :: bool
  trust_server_certificate :: bool
  timeout :: int

section \<open>sp\_runner.py: the refresh gate\<close>

subsection \<open>Texts and their case\<close>

text \<open>
  The names of a refresh target are Python strings. In this section a text is a list of
  characters below U+0100, and a \<open>char\<close> stands for the code point of its character;
  texts with a character from U+0100 on are outside the model.

  On these characters \<^verbatim>\<open>str.lower()\<close> works character by character: the capitals A to Z
  (codes 65 to 90) and the capitals of the upper half (codes 192 to 222 without the
  multiplication sign 215) move 32 codes up to their small forms; every other character
  stays, the sharp s (223) among them.
\<close>

definition is_upper :: "char \<Rightarrow> bool" where
  "is_upper c =
     (let n = (of_char c :: nat) in (65 \<le> n \<and> n \<le> 90) \<or> (192 \<le> n \<and> n \<le> 222 \<and> n \<noteq> 215))"

definition lower_char :: "char \<Rightarrow> char" where
  "lower_char c = (if is_upper c then char_of ((of_char c :: nat) + 32) else c)"

definition lower :: "string \<Rightarrow> string" where
  "lower s = map lower_char s"

text \<open>
  \<^verbatim>\<open>str.upper()\<close> on the same characters; its result is given as a list of code points,
  because it can leave the range: a small letter (codes 97 to 122, and 224 to 254 without
  the division sign 247) moves 32 codes down; the sharp s becomes the two letters SS; the
  micro sign (181) becomes the Greek capital mu (U+039C) and the y with diaeresis (255)
  its capital (U+0178); every other character stays.
\<close>

definition is_lower :: "char \<Rightarrow> bool" where
  "is_lower c =
     (let n = (of_char c :: nat) in (97 \<le> n \<and> n \<le> 122) \<or> (224 \<le> n \<and> n \<le> 254 \<and> n \<noteq> 247))"

definition sharp_s :: char where
  "sharp_s = CHR 0xDF"

definition upper_char :: "char \<Rightarrow> nat list" where
  "upper_char c =
     (if is_lower c then [of_char c - 32]
      else if c = sharp_s then [83, 83]
      else if c = CHR 0xB5 then [924]
      else if c = CHR 0xFF then [376]
      else [of_char c])"

definition upper :: "string \<Rightarrow> nat list" where
  "upper s = concat (map upper_char s)"

subsection \<open>Time\<close>

text \<open>
  A \<^verbatim>\<open>datetime\<close> is a number of microseconds relative to 1970-01-01T00:00:00 on its own
  wall clock. \<open>Aware l off\<close> carries the UTC offset \<open>off\<close> in microseconds and denotes the
  instant \<open>l - off\<close>; \<open>Naive l\<close> carries no zone. \<^verbatim>\<open>_now_utc()\<close> gives an aware value with
  offset zero. A \<^verbatim>\<open>timedelta\<close> is a number of microseconds.

  Both types are bounded. A \<^verbatim>\<open>timedelta\<close> has at most 999999999 days in either direction,
  and the wall clock of a \<^verbatim>\<open>datetime\<close> lies between 0001-01-01T00:00:00 and
  9999-12-31T23:59:59.999999; the constructor and the addition raise \<^verbatim>\<open>OverflowError\<close>
  outside these bounds.
\<close>

datatype datetime = Aware int int | Naive int

definition datetime_min :: int where
  "datetime_min = - 62135596800000000"

definition datetime_max :: int where
  "datetime_max = 253402300799999999"

definition timedelta_max_days :: int where
  "timedelta_max_days = 999999999"

definition now_utc :: "int \<Rightarrow> datetime" where
  "now_utc clock = Aware clock 0"

text \<open>\<^verbatim>\<open>timedelta(hours=h)\<close>\<close>

definition timedelta_hours :: "int \<Rightarrow> error + int" where
  "timedelta_hours h =
     (let us = h * 3600000000; days = us div 86400000000 in
      if - timedelta_max_days \<le> days \<and> days \<le> timedelta_max_days then Inr us
      else Inl OverflowError)"

text \<open>\<^verbatim>\<open>dt + delta\<close>: the sum is taken on the wall clock and keeps the zone.\<close>

fun dt_add :: "datetime \<Rightarrow> int \<Rightarrow> error + datetime" where
  "dt_add (Aware l off) d =
     (if datetime_min \<le> l + d \<and> l + d \<le> datetime_max then Inr (Aware (l + d) off)
      else Inl OverflowError)"
| "dt_add (Naive l) d =
     (if datetime_min \<le> l + d \<and> l + d \<le> datetime_max then Inr (Naive (l + d))
      else Inl OverflowError)"

text \<open>\<^verbatim>\<open>a >= b\<close> on datetimes: two aware values are compared as instants; comparing an
  aware with a naive value raises \<^verbatim>\<open>TypeError\<close>.\<close>

fun dt_ge :: "datetime \<Rightarrow> datetime \<Rightarrow> error + bool" where
  "dt_ge (Aware a oa) (Aware b ob) = Inr (b - ob \<le> a - oa)"
| "dt_ge (Naive a) (Naive b) = Inr (b \<le> a)"
| "dt_ge (Aware a oa) (Naive b) = Inl TypeError"
| "dt_ge (Naive a) (Aware b ob) = Inl TypeError"

subsection \<open>The persisted state\<close>

text \<open>
  The values that \<^verbatim>\<open>json.loads\<close> can put under a key. A JSON string is split in two by what
  \<^verbatim>\<open>datetime.fromisoformat\<close> does with it: \<open>JIso d\<close> is a string that \<^verbatim>\<open>fromisoformat\<close> reads
  as the datetime \<open>d\<close> (\<^verbatim>\<open>d.isoformat()\<close> writes such a string); \<open>JText s\<close> is any string \<open>s\<close>
  that \<^verbatim>\<open>fromisoformat\<close> rejects. \<open>JComposite b\<close> is an array or an object, \<open>b\<close> telling
  whether it has an element.
\<close>

datatype jvalue =
  JNull | JBool bool | JNum real | JText string | JIso datetime | JComposite bool

text \<open>Python truthiness, as used by \<^verbatim>\<open>if not iso\<close>.\<close>

fun truthy :: "jvalue \<Rightarrow> bool" where
  "truthy JNull = False"
| "truthy (JBool b) = b"
| "truthy (JNum x) = (x \<noteq> 0)"
| "truthy (JText s) = (s \<noteq> [])"
| "truthy (JIso d) = True"
| "truthy (JComposite b) = b"

text \<open>\<^verbatim>\<open>datetime.fromisoformat(iso)\<close>: a non-string raises \<^verbatim>\<open>TypeError\<close>, a string that is
  not an ISO timestamp raises \<^verbatim>\<open>ValueError\<close>.\<close>

fun fromisoformat :: "jvalue \<Rightarrow> error + datetime" where
  "fromisoformat (JIso d) = Inr d"
| "fromisoformat (JText s) = Inl ValueError"
| "fromisoformat JNull = Inl TypeError"
| "fromisoformat (JBool b) = Inl TypeError"
| "fromisoformat (JNum x) = Inl TypeError"
| "fromisoformat (JComposite b) = Inl TypeError"

definition isoformat :: "datetime \<Rightarrow> jvalue" where
  "isoformat d = JIso d"

text \<open>
  What \<^verbatim>\<open>json.loads\<close> returns for a text that is valid JSON: an object (a dictionary from
  keys to values) or a document of another shape (an array, a number, a string, null).
\<close>

datatype json_doc = Obj "string \<rightharpoonup> jvalue" | NonObj

text \<open>
  The file \<^verbatim>\<open>.state/sp_runs.json\<close> as a reader finds it:
  \<^item> \<open>Absent\<close>: there is no such file;
  \<^item> \<open>Unsearchable\<close>: the directory \<^verbatim>\<open>.state\<close> exists and the process may not search it;
  \<^item> \<open>Unreadable\<close>: the path exists and \<^verbatim>\<open>read_text\<close> raises (it is a directory, the file
    may not be read, its bytes are not UTF-8);
  \<^item> \<open>Holds t\<close>: the file can be read and holds the text \<open>t\<close>, which is valid JSON or not.
\<close>

datatype file_text = NotJson | Json json_doc

datatype state_file = Absent | Unsearchable | Unreadable | Holds file_text

text \<open>
  \<^verbatim>\<open>STATE_FILE.exists()\<close>, as \<^verbatim>\<open>pathlib\<close> has it in Python 3.11: the error of a missing
  path is answered with False, every other error of the system call is raised again, the
  \<^verbatim>\<open>PermissionError\<close> of a directory that may not be searched among them. (The newest
  versions of the library answer False for every error of the system call.)
\<close>

fun exists_file :: "state_file \<Rightarrow> error + bool" where
  "exists_file Absent = Inr False"
| "exists_file Unsearchable = Inl PermissionError"
| "exists_file Unreadable = Inr True"
| "exists_file (Holds t) = Inr True"

fun read_text :: "state_file \<Rightarrow> error + file_text" where
  "read_text (Holds t) = Inr t"
| "read_text Unreadable = Inl OSError"
| "read_text Unsearchable = Inl PermissionError"
| "read_text Absent = Inl OSError"

fun json_loads :: "file_text \<Rightarrow> error + json_doc" where
  "json_loads (Json d) = Inr d"
| "json_loads NotJson = Inl JSONDecodeError"

text \<open>
  \<^verbatim>\<open>_load_state\<close>: the test for existence stands before the \<^verbatim>\<open>try\<close>, so its exception
  leaves the function; the \<^verbatim>\<open>except Exception\<close> turns every failure of reading or decoding
  into the empty dictionary.
\<close>

definition load_state :: "state_file \<Rightarrow> error + json_doc" where
  "load_state f =
     (case exists_file f of
        Inl e \<Rightarrow> Inl e
      | Inr present \<Rightarrow>
          if \<not> present then Inr (Obj Map.empty)
          else (case read_text f of
              Inl e \<Rightarrow> Inr (Obj Map.empty)
            | Inr t \<Rightarrow> (case json_loads t of Inl e \<Rightarrow> Inr (Obj Map.empty) | Inr d \<Rightarrow> Inr d)))"

text \<open>
  The world that the module acts on: the state file, whether the file can be written
  (\<^verbatim>\<open>mkdir\<close> and \<^verbatim>\<open>write_text\<close> succeed: the directory can be made or is there, the path is
  no directory, the process may write), and the number of times the stored procedure has
  been executed with success.
\<close>

record world =
  sfile :: state_file
  writable :: bool
  executions :: nat

text \<open>
  \<^verbatim>\<open>_save_state\<close> writes the whole dictionary, and the file then holds that object; where
  the directory may not be searched or the file cannot be written, \<^verbatim>\<open>mkdir\<close> or
  \<^verbatim>\<open>write_text\<close> raises and the file stays as it was.
\<close>

definition save_state :: "world \<Rightarrow> (string \<rightharpoonup> jvalue) \<Rightarrow> error + world" where
  "save_state w m =
     (if sfile w = Unsearchable then Inl PermissionError
      else if \<not> writable w then Inl OSError
      else Inr (w\<lparr>sfile := Holds (Json (Obj m))\<rparr>))"

subsection \<open>Key, policy and decision\<close>

definition sp_key :: "Config \<Rightarrow> string \<Rightarrow> string \<Rightarrow> string" where
  "sp_key cfg sp_name schema =
     join ''|'' [lower (server cfg), lower (database cfg), lower schema, lower sp_name]"

record SPRunPolicy =
  ttl_hours :: int

definition default_policy :: SPRunPolicy where
  "default_policy = \<lparr>ttl_hours = 24\<rparr>"

definition ttl :: "SPRunPolicy \<Rightarrow> error + int" where
  "ttl p = timedelta_hours (ttl_hours p)"

text \<open>\<^verbatim>\<open>state.get(key)\<close>: only a dictionary has \<^verbatim>\<open>get\<close>; a missing key gives \<^verbatim>\<open>None\<close>.\<close>

fun doc_get :: "json_doc \<Rightarrow> string \<Rightarrow> error + jvalue" where
  "doc_get (Obj m) k = Inr (case m k of None \<Rightarrow> JNull | Some v \<Rightarrow> v)"
| "doc_get NonObj k = Inl AttributeError"

text \<open>
  \<^verbatim>\<open>should_run\<close> reads the file and the clock. The result is the pair (run?, last run).
  Only the exceptions of \<^verbatim>\<open>fromisoformat\<close> are caught: those of \<^verbatim>\<open>_load_state\<close>, of
  \<^verbatim>\<open>state.get\<close>, of \<^verbatim>\<open>policy.ttl()\<close>, of the addition and of the comparison leave the
  function.
\<close>

definition should_run ::
  "state_file \<Rightarrow> int \<Rightarrow> Config \<Rightarrow> string \<Rightarrow> string \<Rightarrow> SPRunPolicy \<Rightarrow> error + (bool \<times> datetime option)"
where
  "should_run f clock cfg sp_name schema policy =
     (case load_state f of
        Inl e \<Rightarrow> Inl e
      | Inr state \<Rightarrow>
          (let key = sp_key cfg sp_name schema in
           case doc_get state key of
             Inl e \<Rightarrow> Inl e
           | Inr iso_v \<Rightarrow>
               if \<not> truthy iso_v then Inr (True, None)
               else (case fromisoformat iso_v of
                   Inl e \<Rightarrow> Inr (True, None)
                 | Inr lastrun \<Rightarrow>
                     (case ttl policy of
                        Inl e \<Rightarrow> Inl e
                      | Inr delta \<Rightarrow>
                          (case dt_add lastrun delta of
                             Inl e \<Rightarrow> Inl e
                           | Inr due \<Rightarrow>
                               (case dt_ge (now_utc clock) due of
                                  Inl e \<Rightarrow> Inl e
                                | Inr b \<Rightarrow> Inr (b, Some lastrun)))))))"

text \<open>
  \<^verbatim>\<open>mark_ran\<close> loads the state again, sets the key and saves. \<^verbatim>\<open>state[key] = ...\<close> needs a
  dictionary: on a list it raises \<^verbatim>\<open>TypeError\<close>, as it does on a number, a string or
  \<^verbatim>\<open>None\<close>.
\<close>

definition mark_ran :: "world \<Rightarrow> int \<Rightarrow> Config \<Rightarrow> string \<Rightarrow> string \<Rightarrow> error + world" where
  "mark_ran w clock cfg sp_name schema =
     (case load_state (sfile w) of
        Inl e \<Rightarrow> Inl e
      | Inr state \<Rightarrow>
          (let key = sp_key cfg sp_name schema in
           case state of
             NonObj \<Rightarrow> Inl TypeError
           | Obj m \<Rightarrow> save_state w (m(key \<mapsto> isoformat (now_utc clock)))))"

subsection \<open>Running the procedure\<close>

text \<open>
  The database is a parameter of \<open>maybe_run_sp\<close>: \<open>db cfg sp_name schema\<close> is the outcome of
  \<^verbatim>\<open>execute_stored_procedure\<close> (after its own retries), \<open>Inr ()\<close> for success. The clock is
  read twice, once by \<^verbatim>\<open>should_run\<close> (\<open>clock1\<close>) and once by \<^verbatim>\<open>mark_ran\<close> (\<open>clock2\<close>).
\<close>

datatype run_reason = Forced | Recent datetime | Ttl_expired

record run_result =
  ran_flag :: bool
  reason :: run_reason

text \<open>
  The three values of \<open>run_reason\<close> stand for the strings \<^verbatim>\<open>"forced"\<close>,
  \<^verbatim>\<open>"recent (last run <iso>)"\<close> and \<^verbatim>\<open>"ttl_expired"\<close>.
\<close>

text \<open>
  Both branches of \<^verbatim>\<open>maybe_run_sp\<close> that run the procedure hold the same three statements:
  \<^verbatim>\<open>execute_stored_procedure(...)\<close>, \<^verbatim>\<open>mark_ran(...)\<close> and the \<^verbatim>\<open>return\<close> of the result with
  its reason. An exception of the first leaves the world as it was; an exception of the
  second leaves the file as it was, after the procedure has run.
\<close>

definition execute_and_mark ::
  "(Config \<Rightarrow> string \<Rightarrow> string \<Rightarrow> error + unit) \<Rightarrow> int \<Rightarrow> world \<Rightarrow> Config \<Rightarrow> string \<Rightarrow> string
     \<Rightarrow> run_reason \<Rightarrow> (error + run_result) \<times> world"
where
  "execute_and_mark db clock2 w cfg sp_name schema why =
     (case db cfg sp_name schema of
        Inl e \<Rightarrow> (Inl e, w)
      | Inr u \<Rightarrow>
          (let w1 = w\<lparr>executions := Suc (executions w)\<rparr> in
           case mark_ran w1 clock2 cfg sp_name schema of
             Inl e \<Rightarrow> (Inl e, w1)
           | Inr w2 \<Rightarrow> (Inr \<lparr>ran_flag = True, reason = why\<rparr>, w2)))"

text \<open>\<^verbatim>\<open>policy or SPRunPolicy()\<close>\<close>

definition policy_or_default :: "SPRunPolicy option \<Rightarrow> SPRunPolicy" where
  "policy_or_default policy = (case policy of None \<Rightarrow> default_policy | Some p \<Rightarrow> p)"

definition maybe_run_sp ::
  "(Config \<Rightarrow> string \<Rightarrow> string \<Rightarrow> error + unit) \<Rightarrow> int \<Rightarrow> int \<Rightarrow> world
     \<Rightarrow> Config \<Rightarrow> string \<Rightarrow> string \<Rightarrow> bool \<Rightarrow> SPRunPolicy option \<Rightarrow> (error + run_result) \<times> world"
where
  "maybe_run_sp db clock1 clock2 w cfg sp_name schema force policy =
     (let policy = policy_or_default policy in
      if force then execute_and_mark db clock2 w cfg sp_name schema Forced
      else case should_run (sfile w) clock1 cfg sp_name schema policy of
          Inl e \<Rightarrow> (Inl e, w)
        | Inr (doit, lastrun) \<Rightarrow>
            if \<not> doit then
              (case lastrun of
                 None \<Rightarrow> (Inl AttributeError, w)
               | Some l \<Rightarrow> (Inr \<lparr>ran_flag = False, reason = Recent l\<rparr>, w))
            else execute_and_mark db clock2 w cfg sp_name schema Ttl_expired)"

text \<open>
  The state of one key as the specification names it: \<open>Unknown\<close> when the loaded dictionary
  has no entry for the key, \<open>Known t\<close> when the entry is the ISO text of a timestamp with
  zone, \<open>t\<close> being its instant in UTC. An entry of another kind (null, a number, a text
  that is no timestamp, a timestamp without zone) is neither.
\<close>

datatype gate = Unknown | Known int

fun gate_of :: "json_doc \<Rightarrow> string \<Rightarrow> gate option" where
  "gate_of NonObj k = None"
| "gate_of (Obj m) k =
     (case m k of
        None \<Rightarrow> Some Unknown
      | Some (JIso (Aware l off)) \<Rightarrow> Some (Known (l - off))
      | Some v \<Rightarrow> None)"

text \<open>
  Two texts differ only in letter case when they are the same text once every letter is
  written as a capital: they have the same upper-case form.
\<close>

definition differ_only_in_case :: "string \<Rightarrow> string \<Rightarrow> bool" where
  "differ_only_in_case s t = (upper s = upper t)"

text \<open>The case mappings on codes, for the proofs: the code of the upper-case form of a
  character other than the sharp s, and the code of the lower-case form.\<close>

definition upper_code :: "nat \<Rightarrow> nat" where
  "upper_code n =
     (if (97 \<le> n \<and> n \<le> 122) \<or> (224 \<le> n \<and> n \<le> 254 \<and> n \<noteq> 247) then n - 32
      else if n = 181 then 924 else if n = 255 then 376 else n)"

definition lower_code :: "nat \<Rightarrow> nat" where
  "lower_code n =
     (if (65 \<le> n \<and> n \<le> 90) \<or> (192 \<le> n \<and> n \<le> 222 \<and> n \<noteq> 215) then n + 32 else n)"

section \<open>Numbers as text\<close>

text \<open>\<^verbatim>\<open>str(n)\<close> for an integer, and the format \<^verbatim>\<open>{n:,}\<close> with a comma between groups of
  three digits.\<close>

definition digit_char :: "nat \<Rightarrow> char" where
  "digit_char d = ''0123456789'' ! d"

fun str_nat :: "nat \<Rightarrow> string" where
  "str_nat n = (if n < 10 then [digit_char n] else str_nat (n div 10) @ [digit_char (n mod 10)])"

declare str_nat.simps [simp del]

definition str_int :: "int \<Rightarrow> string" where
  "str_int i = (if i < 0 then ''-'' @ str_nat (nat (- i)) else str_nat (nat i))"

function group3 :: "string \<Rightarrow> string" where
  "group3 ds =
     (if length ds \<le> 3 then ds
      else group3 (take (length ds - 3) ds) @ '','' @ drop (length ds - 3) ds)"
  by pat_completeness auto
termination
  by (relation "measure length") auto

declare group3.simps [simp del]

definition str_int_grouped :: "int \<Rightarrow> string" where
  "str_int_grouped i =
     (if i < 0 then ''-'' @ group3 (str_nat (nat (- i))) else group3 (str_nat (nat i)))"

section \<open>Cells of a data frame\<close>

text \<open>
  One cell of a column as the query delivers it: a number (an integer, a float, or a
  boolean, which Python counts as 0 or 1), the float \<^verbatim>\<open>nan\<close>, the object \<^verbatim>\<open>None\<close>, or a
  text. \<open>CText s\<close> is a text that is not the spelling of a number: \<^verbatim>\<open>float(s)\<close> raises
  \<^verbatim>\<open>ValueError\<close> and \<^verbatim>\<open>pd.to_numeric(errors="coerce")\<close> turns it into a missing value.
  A float is a real number or \<^verbatim>\<open>nan\<close>; infinities and rounding of floats are not modelled.
\<close>

datatype cell = CNum real | CNaN | CNone | CText string

section \<open>The business rule of cli.py and pyMLChurn.py\<close>

text \<open>
  Both entry points hold the same block. Dates are day numbers; the snapshot date of a
  record is \<open>None\<close> where \<^verbatim>\<open>pd.to_datetime(errors='coerce')\<close> gives \<^verbatim>\<open>NaT\<close>. A number of
  days is \<open>None\<close> where the column holds \<^verbatim>\<open>nan\<close>.
\<close>

text \<open>\<^verbatim>\<open>(today - as_of_dt).dt.days.clip(lower=0)\<close>\<close>

definition days_since_purchase_today :: "int \<Rightarrow> int option \<Rightarrow> int option" where
  "days_since_purchase_today today as_of = map_option (\<lambda>d. max 0 (today - d)) as_of"

text \<open>
  \<^verbatim>\<open>Series.astype(bool)\<close>, cell by cell: Python's truth value of the cell. The result has
  no missing value, which the type \<open>bool option\<close> could hold; \<^verbatim>\<open>fillna(False)\<close> then
  replaces the missing values of that result.
\<close>

fun astype_bool :: "cell \<Rightarrow> bool option" where
  "astype_bool (CNum x) = Some (x \<noteq> 0)"
| "astype_bool CNaN = Some True"
| "astype_bool CNone = Some False"
| "astype_bool (CText s) = Some (s \<noteq> [])"

definition fillna_bool :: "bool \<Rightarrow> bool option \<Rightarrow> bool" where
  "fillna_bool d b = (case b of None \<Rightarrow> d | Some v \<Rightarrow> v)"

definition in_grace :: "cell \<Rightarrow> bool" where
  "in_grace c = fillna_bool False (astype_bool c)"

text \<open>\<^verbatim>\<open>threshold = 90 + (in_grace.astype(int) * 30)\<close>\<close>

definition threshold :: "bool \<Rightarrow> int" where
  "threshold g = 90 + (if g then 1 else 0) * 30"

text \<open>\<^verbatim>\<open>(days_since_purchase_today >= threshold).astype(int)\<close>: a comparison with \<^verbatim>\<open>nan\<close> is
  false.\<close>

definition business_churn_now :: "int option \<Rightarrow> int \<Rightarrow> int" where
  "business_churn_now days th =
     (case days of None \<Rightarrow> 0 | Some d \<Rightarrow> if th \<le> d then 1 else 0)"

definition business_churn_reason :: "int option \<Rightarrow> int \<Rightarrow> bool \<Rightarrow> int \<Rightarrow> string" where
  "business_churn_reason days th in_g churn =
     (let days_i = (case days of None \<Rightarrow> 0 | Some d \<Rightarrow> d); th_i = th in
      if churn = 1 then
        (if in_g \<and> 90 < th_i
         then ''No purchases for '' @ str_int days_i @ '' days; Grace period exceeded''
         else ''No purchases for '' @ str_int days_i @ '' days'')
      else
        (if in_g \<and> days_i < th_i then ''In renewal grace period (extra 30 days)''
         else if days_i < 90 then ''Recent purchase within last 90 days''
         else ''Within adjusted threshold''))"

text \<open>One record of the rule's output: the days since the last purchase, the flag and the
  reason.\<close>

record rule_row =
  days_since_last_purchase_today :: "int option"
  business_churn_now_col :: int
  business_churn_reason_col :: string

definition business_rule_row :: "int \<Rightarrow> int option \<Rightarrow> cell \<Rightarrow> rule_row" where
  "business_rule_row today as_of grace =
     (let days = days_since_purchase_today today as_of;
          g = in_grace grace;
          th = threshold g;
          churn = business_churn_now days th
      in \<lparr>days_since_last_purchase_today = days,
          business_churn_now_col = churn,
          business_churn_reason_col = business_churn_reason days th g churn\<rparr>)"

text \<open>The block over the whole record set: one output record per input record, given as
  the pair of its snapshot date and its \<^verbatim>\<open>in_renewal_grace\<close> cell.\<close>

definition business_rule :: "int \<Rightarrow> (int option \<times> cell) list \<Rightarrow> rule_row list" where
  "business_rule today recs = map (\<lambda>(as_of, grace). business_rule_row today as_of grace) recs"

section \<open>ml.py: phrases\<close>

text \<open>\<^verbatim>\<open>round(x)\<close> of a float: to the nearest integer, a tie to the even one.\<close>

definition py_round :: "real \<Rightarrow> int" where
  "py_round x =
     (let f = \<lfloor>x\<rfloor>; r = x - of_int f in
      if r < 1 / 2 then f
      else if 1 / 2 < r then f + 1
      else if even f then f else f + 1)"

text \<open>
  The fixed-point formats \<^verbatim>\<open>{v:.kf}\<close> and \<^verbatim>\<open>{v:,.kf}\<close>: the sign, the integer part (with
  commas when grouped), a point and \<open>k\<close> decimals, rounded half to even.
\<close>

definition fixed_abs :: "bool \<Rightarrow> nat \<Rightarrow> real \<Rightarrow> string" where
  "fixed_abs grouped k a =
     (let scaled = nat (py_round (a * 10 ^ k));
          ip = str_nat (scaled div 10 ^ k);
          fp = str_nat (scaled mod 10 ^ k)
      in (if grouped then group3 ip else ip) @ ''.'' @ replicate (k - length fp) CHR ''0'' @ fp)"

definition fmt_fixed :: "bool \<Rightarrow> nat \<Rightarrow> real \<Rightarrow> string" where
  "fmt_fixed grouped k v = (if v < 0 then ''-'' else []) @ fixed_abs grouped k \<bar>v\<bar>"

definition fmt_signed :: "nat \<Rightarrow> real \<Rightarrow> string" where
  "fmt_signed k v = (if v < 0 then ''-'' else ''+'') @ fixed_abs False k \<bar>v\<bar>"

text \<open>\<^verbatim>\<open>str.strip()\<close>: the white space of ASCII is removed at both ends.\<close>

definition is_space :: "char \<Rightarrow> bool" where
  "is_space c = (c \<in> set [CHR 0x20, CHR 0x09, CHR 0x0A, CHR 0x0B, CHR 0x0C, CHR 0x0D,
                          CHR 0x1C, CHR 0x1D, CHR 0x1E, CHR 0x1F])"

definition strip :: "string \<Rightarrow> string" where
  "strip s = rev (dropWhile is_space (rev (dropWhile is_space s)))"

text \<open>\<^verbatim>\<open>_risk_direction\<close>\<close>

definition high_risk :: "string list" where
  "high_risk =
     [''recency_days'', ''median_gap_days'', ''p90_gap_days'', ''cv_gap'', ''rev_returns_90d'',
      ''credit_notes_90d'', ''orders_neg_30d'', ''backorder_qty_30d'',
      ''credit_notes_prev_month'', ''credit_notes_ma3'', ''threshold_days'',
      ''is_maintenance_heavy'', ''maint_cycle_days'', ''severity_score'',
      ''lateness_component'', ''credits_component'', ''trend_component'']"

definition low_risk :: "string list" where
  "low_risk =
     [''rev_180d'', ''invoices_90d'', ''orders_pos_30d'', ''invoices_pos_prev_month'',
      ''mitigator_component'']"

definition neg_risk :: "string list" where
  "neg_risk = [''pct_change_3m'', ''pct_change_6m'', ''yoy_change_pct'']"

definition risk_direction :: "string \<Rightarrow> string" where
  "risk_direction col =
     (if col \<in> set high_risk then ''high''
      else if col \<in> set low_risk then ''low''
      else if col \<in> set neg_risk then ''neg''
      else ''high'')"

text \<open>\<^verbatim>\<open>_friendly_label\<close>\<close>

definition label_mapping :: "(string \<times> string) list" where
  "label_mapping =
     [(''recency_days'', ''No purchases for''),
      (''median_gap_days'', ''Typical gap between purchases''),
      (''p90_gap_days'', ''Long purchase gaps (90th percentile)''),
      (''cv_gap'', ''Irregular buying cadence''),
      (''in_renewal_grace'', ''In renewal grace period''),
      (''rev_180d'', ''Revenue in last 180 days''),
      (''rev_returns_90d'', ''Returns value in last 90 days''),
      (''invoices_90d'', ''Invoices in last 90 days''),
      (''credit_notes_90d'', ''Credit notes in last 90 days''),
      (''orders_pos_30d'', ''Positive order value in last 30 days''),
      (''orders_neg_30d'', ''Negative order value in last 30 days''),
      (''backorder_qty_30d'', ''Backorder quantity in last 30 days''),
      (''pct_change_3m'', ''Change vs prior 3 months''),
      (''pct_change_6m'', ''Change vs prior 6 months''),
      (''yoy_change_pct'', ''Year-over-year change''),
      (''credit_notes_prev_month'', ''Credit notes last month''),
      (''invoices_pos_prev_month'', ''Invoices last month''),
      (''credit_notes_ma3'', ''Credit notes per month (3-month average)''),
      (''threshold_days'', ''Days past expected purchase threshold''),
      (''is_maintenance_heavy'', ''Maintenance-heavy profile''),
      (''maint_cycle_days'', ''Maintenance cycle length''),
      (''severity_score'', ''Issue severity score''),
      (''lateness_component'', ''Late purchase signal''),
      (''credits_component'', ''Credits/returns signal''),
      (''trend_component'', ''Negative trend signal''),
      (''mitigator_component'', ''Mitigating signals'')]"

definition friendly_label :: "string \<Rightarrow> string" where
  "friendly_label col = (case map_of label_mapping col of None \<Rightarrow> col | Some l \<Rightarrow> l)"

text \<open>
  \<^verbatim>\<open>_format_value\<close>. The value is a float: \<open>None\<close> is \<^verbatim>\<open>nan\<close>. The \<^verbatim>\<open>except\<close> branches of
  the source guard conversions that cannot fail on a real number.
\<close>

definition format_value :: "string \<Rightarrow> real option \<Rightarrow> string" where
  "format_value col val =
     (case val of
        None \<Rightarrow> []
      | Some v \<Rightarrow>
          if suffix ''_days'' col
             \<or> col \<in> set [''recency_days'', ''maint_cycle_days'', ''threshold_days'']
          then str_int (py_round v) @ '' days''
          else if col \<in> set [''invoices_90d'', ''backorder_qty_30d'', ''invoices_pos_prev_month'',
                               ''credit_notes_90d'', ''credit_notes_prev_month'']
          then str_int_grouped (py_round v)
          else if col = ''credit_notes_ma3'' then fmt_fixed False 2 v @ '' per month''
          else if col \<in> set [''pct_change_3m'', ''pct_change_6m'', ''yoy_change_pct'']
          then fmt_signed 1 v @ ''%''
          else if col \<in> set [''rev_180d'', ''rev_returns_90d'', ''orders_pos_30d'', ''orders_neg_30d'']
          then (if v < 0 then ''-$'' @ fmt_fixed True 2 \<bar>v\<bar> else ''$'' @ fmt_fixed True 2 v)
          else if \<bar>v - of_int (py_round v)\<bar> < 1 / 2 then str_int_grouped (py_round v)
          else fmt_fixed True 2 v)"

text \<open>\<^verbatim>\<open>bool(value)\<close> of a float: false for zero only, so true for \<^verbatim>\<open>nan\<close>.\<close>

definition float_bool :: "real option \<Rightarrow> bool" where
  "float_bool val = (case val of None \<Rightarrow> True | Some v \<Rightarrow> v \<noteq> 0)"

text \<open>The phrase for the maintenance flag holds three characters beyond ASCII in the
  source file; they are given here by their eight UTF-8 bytes.\<close>

definition maintenance_phrase :: string where
  "maintenance_phrase =
     ''Maintenance'' @ [CHR 0xC3, CHR 0xA2, CHR 0xE2, CHR 0x82, CHR 0xAC, CHR 0xE2, CHR 0x80, CHR 0x98]
       @ ''heavy profile''"

definition signal_cols :: "string list" where
  "signal_cols =
     [''lateness_component'', ''credits_component'', ''trend_component'', ''mitigator_component'']"

text \<open>\<^verbatim>\<open>_describe\<close>\<close>

definition describe :: "string \<Rightarrow> real option \<Rightarrow> real \<Rightarrow> string" where
  "describe col val z =
     (let label = friendly_label col;
          direction = risk_direction col;
          val_txt = format_value col val
      in
      if col = ''is_maintenance_heavy'' then (if float_bool val then maintenance_phrase else [])
      else if col = ''in_renewal_grace''
      then (if float_bool val then ''In renewal grace period'' else [])
      else if direction = ''neg'' then
        (case val of
           None \<Rightarrow> []
         | Some v \<Rightarrow> if v < 0 then label @ '' ('' @ val_txt @ '')'' else [])
      else if direction = ''high'' then
        (if z \<le> 0 then []
         else if col \<in> set signal_cols then label
         else if prefix ''No purchases for'' label then strip (label @ '' '' @ val_txt)
         else if val_txt \<noteq> [] then label @ '' ('' @ val_txt @ '')'' else label)
      else if direction = ''low'' then
        (let base = label;
             base = (if prefix ''Invoices'' label then ''Few invoices in last 90 days'' else base);
             base = (if prefix ''Positive order value'' label
                     then ''Low positive order value (last 30 days)'' else base);
             base = (if prefix ''Revenue in'' label then ''Low recent revenue'' else base);
             base = (if prefix ''Mitigating'' label then ''Few mitigating signals'' else base)
         in
         if 0 \<le> z then []
         else if col \<in> set signal_cols then base
         else if val_txt \<noteq> [] then base @ '' ('' @ val_txt @ '')'' else base)
      else label @ '' ('' @ val_txt @ '')'')"

section \<open>ml.py: training, prediction and reasons\<close>

subsection \<open>Data\<close>

text \<open>
  A \<^verbatim>\<open>DataFrame\<close> is the list of its column names and the list of its rows; a row gives the
  cell under a column name (only the names in \<open>colnames\<close> matter). \<^verbatim>\<open>len(df)\<close> is the number
  of rows, \<^verbatim>\<open>c in df.columns\<close> is membership in \<open>colnames\<close>, and \<^verbatim>\<open>df[c].iloc[i]\<close> is the
  cell of row \<open>i\<close> under \<open>c\<close>.
\<close>

record dataframe =
  colnames :: "string list"
  rows :: "(string \<Rightarrow> cell) list"

record MLConfig =
  customer_id_col :: string
  feature_cols :: "string list"
  target_col :: "string option"
  date_col :: "string option"

text \<open>\<^verbatim>\<open>pd.to_numeric(errors="coerce")\<close> on one cell: what is no number becomes missing.\<close>

fun to_numeric :: "cell \<Rightarrow> real option" where
  "to_numeric (CNum x) = Some x"
| "to_numeric CNaN = None"
| "to_numeric CNone = None"
| "to_numeric (CText s) = None"

definition numeric_cell :: "real option \<Rightarrow> cell" where
  "numeric_cell v = (case v of None \<Rightarrow> CNaN | Some x \<Rightarrow> CNum x)"

text \<open>\<^verbatim>\<open>_coerce_types\<close>: a copy in which every feature column that is present holds numbers
  or \<^verbatim>\<open>nan\<close>. (A boolean cell is a number already.)\<close>

definition coerce_types :: "dataframe \<Rightarrow> string list \<Rightarrow> dataframe" where
  "coerce_types df cols =
     df\<lparr>rows := map (\<lambda>r c. if c \<in> set cols \<and> c \<in> set (colnames df)
                             then numeric_cell (to_numeric (r c)) else r c) (rows df)\<rparr>"

text \<open>\<^verbatim>\<open>work[cfg.feature_cols].to_numpy()\<close>: one list of floats per row.\<close>

definition to_numpy :: "dataframe \<Rightarrow> string list \<Rightarrow> real option list list" where
  "to_numpy df cols = map (\<lambda>r. map (\<lambda>c. to_numeric (r c)) cols) (rows df)"

text \<open>
  \<^verbatim>\<open>pd.to_numeric(col, errors="coerce").fillna(0).astype(int)\<close>: the cast to the 64-bit
  integer cuts the fraction off; a value outside the range of that type wraps around.
\<close>

definition int64_wrap :: "int \<Rightarrow> int" where
  "int64_wrap t = (t + 2 ^ 63) mod 2 ^ 64 - 2 ^ 63"

definition to_label :: "cell \<Rightarrow> int" where
  "to_label c =
     (case to_numeric c of
        None \<Rightarrow> 0
      | Some x \<Rightarrow> int64_wrap (if x < 0 then \<lceil>x\<rceil> else \<lfloor>x\<rfloor>))"

definition label_column :: "dataframe \<Rightarrow> string \<Rightarrow> int list" where
  "label_column df t = map (\<lambda>r. to_label (r t)) (rows df)"

text \<open>
  The labels, when there are any: under the test
  \<^verbatim>\<open>cfg.target_col and cfg.target_col in df.columns\<close> the column is coerced to integers.
\<close>

definition target_labels :: "dataframe \<Rightarrow> MLConfig \<Rightarrow> int list option" where
  "target_labels df cfg =
     (case target_col cfg of
        None \<Rightarrow> None
      | Some t \<Rightarrow> if t \<noteq> [] \<and> t \<in> set (colnames df) then Some (label_column df t) else None)"

subsection \<open>The scikit-learn pipeline\<close>

text \<open>
  The numerical work of the library is a parameter. A fitted pipeline is given by what the
  source reads from it: the transformation of its first step
  (\<^verbatim>\<open>pipe.named_steps["pre"].transform\<close>), the probability of class 1
  (\<^verbatim>\<open>pipe.predict_proba(X)[:, 1]\<close>) and the coefficients of the classifier
  (\<^verbatim>\<open>clf.coef_.ravel()\<close>). \<^verbatim>\<open>build_pipeline\<close> returns a pipeline that is not fitted, \<open>None\<close>
  here; \<^verbatim>\<open>pipe.fit(X, y)\<close> is the parameter \<open>fit\<close> of \<open>train_and_predict\<close> and either raises
  or yields the fitted pipeline.

  The library's contract for a pipeline that is not fitted: \<^verbatim>\<open>transform\<close> of a
  \<^verbatim>\<open>ColumnTransformer\<close> starts with \<^verbatim>\<open>check_is_fitted\<close> and raises \<^verbatim>\<open>NotFittedError\<close>, and the
  attribute \<^verbatim>\<open>coef_\<close> of the classifier does not exist (\<^verbatim>\<open>AttributeError\<close>).
\<close>

record fitted =
  transform_fn :: "real option list list \<Rightarrow> real list list"
  predict_proba1 :: "real option list list \<Rightarrow> real list"
  coef :: "real list"

type_synonym pipeline = "fitted option"

definition build_pipeline :: "nat \<Rightarrow> pipeline" where
  "build_pipeline n_features = None"

definition pre_transform :: "pipeline \<Rightarrow> real option list list \<Rightarrow> error + real list list" where
  "pre_transform pipe X =
     (case pipe of None \<Rightarrow> Inl NotFittedError | Some m \<Rightarrow> Inr (transform_fn m X))"

definition clf_coef :: "pipeline \<Rightarrow> error + real list" where
  "clf_coef pipe = (case pipe of None \<Rightarrow> Inl AttributeError | Some m \<Rightarrow> Inr (coef m))"

text \<open>
  \<^verbatim>\<open>_shap_contributions\<close>: \<open>None\<close> when the package is missing or anything raises. The
  explainer of the package is the parameter \<open>shap\<close>, applied to the fitted pipeline and the
  transformed matrix.
\<close>

definition shap_contributions ::
  "bool \<Rightarrow> (fitted \<Rightarrow> real list list \<Rightarrow> error + real list list) \<Rightarrow> pipeline
     \<Rightarrow> real option list list \<Rightarrow> real list list option"
where
  "shap_contributions has_shap shap pipe X =
     (if \<not> has_shap then None
      else case pre_transform pipe X of
          Inl e \<Rightarrow> None
        | Inr Xt \<Rightarrow>
            (case pipe of
               None \<Rightarrow> None
             | Some m \<Rightarrow> (case shap m Xt of Inl e \<Rightarrow> None | Inr phi \<Rightarrow> Some phi)))"

subsection \<open>Reasons\<close>

text \<open>The product of two one-dimensional arrays, with numpy's broadcasting of an array of
  length one.\<close>

definition np_mul :: "real list \<Rightarrow> real list \<Rightarrow> error + real list" where
  "np_mul a b =
     (if length a = length b then Inr (map2 (*) a b)
      else if length b = 1 then Inr (map (\<lambda>x. x * hd b) a)
      else if length a = 1 then Inr (map (\<lambda>y. hd a * y) b)
      else Inl ValueError)"

text \<open>
  \<^verbatim>\<open>np.argsort\<close>: the indices in ascending order of the values. numpy does not promise an
  order among equal values; the model takes the stable one. The properties below hold for
  every order of the indices.
\<close>

definition argsort :: "real list \<Rightarrow> nat list" where
  "argsort xs = map snd (sort_key fst (zip xs [0..<length xs]))"

text \<open>What the loops over the rows read: the raw frame, the configured features, the
  pipeline, the transformed matrix and the SHAP matrix if there is one.\<close>

record explain_env =
  e_df :: dataframe
  e_cols :: "string list"
  e_pipe :: pipeline
  e_Xt :: "real list list"
  e_phi :: "real list list option"

text \<open>The contribution vector of row \<open>i\<close>: \<^verbatim>\<open>phi[i]\<close>, or \<^verbatim>\<open>Xt[i] * coefs\<close>.\<close>

definition contribution :: "explain_env \<Rightarrow> nat \<Rightarrow> error + real list" where
  "contribution E i =
     (case e_phi E of
        Some phi \<Rightarrow> nth_err phi i
      | None \<Rightarrow>
          (case clf_coef (e_pipe E) of
             Inl e \<Rightarrow> Inl e
           | Inr coefs \<Rightarrow>
               (case nth_err (e_Xt E) i of Inl e \<Rightarrow> Inl e | Inr xi \<Rightarrow> np_mul xi coefs)))"

text \<open>\<^verbatim>\<open>float(val) if pd.notna(val) else np.nan\<close>: \<^verbatim>\<open>float\<close> of a text that is no number
  raises \<^verbatim>\<open>ValueError\<close>.\<close>

fun float_or_nan :: "cell \<Rightarrow> error + real option" where
  "float_or_nan (CNum x) = Inr (Some x)"
| "float_or_nan CNaN = Inr None"
| "float_or_nan CNone = Inr None"
| "float_or_nan (CText s) = Inl ValueError"

text \<open>\<^verbatim>\<open>float(Xt[i, idx])\<close> inside its own \<^verbatim>\<open>try\<close>: 0.0 when the index is out of range.\<close>

definition z_value :: "real list list \<Rightarrow> nat \<Rightarrow> nat \<Rightarrow> real" where
  "z_value Xt i idx =
     (case nth_err Xt i of
        Inl e \<Rightarrow> 0
      | Inr xi \<Rightarrow> (case nth_err xi idx of Inl e \<Rightarrow> 0 | Inr z \<Rightarrow> z))"

text \<open>The phrase of feature \<open>idx\<close> for row \<open>i\<close>: the four statements of the inner loop from
  \<^verbatim>\<open>col = cfg.feature_cols[idx]\<close> to the call of \<^verbatim>\<open>_describe\<close>.\<close>

definition render :: "explain_env \<Rightarrow> nat \<Rightarrow> nat \<Rightarrow> error + string" where
  "render E i idx =
     (case nth_err (e_cols E) idx of
        Inl e \<Rightarrow> Inl e
      | Inr col \<Rightarrow>
          (case nth_err (rows (e_df E)) i of
             Inl e \<Rightarrow> Inl e
           | Inr r \<Rightarrow>
               (let z = z_value (e_Xt E) i idx in
                case float_or_nan (r col) of
                  Inl e \<Rightarrow> Inl e
                | Inr v \<Rightarrow> Inr (describe col v z))))"

text \<open>
  The inner loop \<^verbatim>\<open>for idx in order\<close>. \<open>positive_only\<close> is the test \<^verbatim>\<open>int(pred[i]) == 1\<close>
  (always true in the loop for the actual labels); \<open>phrases\<close> is the list built so far.
\<close>

fun phrase_loop ::
  "explain_env \<Rightarrow> nat \<Rightarrow> bool \<Rightarrow> real list \<Rightarrow> nat list \<Rightarrow> string list \<Rightarrow> error + string list"
where
  "phrase_loop E i positive_only contrib [] phrases = Inr phrases"
| "phrase_loop E i positive_only contrib (idx # order) phrases =
     (if 3 \<le> length phrases then Inr phrases
      else case (if positive_only
                 then (case nth_err contrib idx of Inl e \<Rightarrow> Inl e | Inr c \<Rightarrow> Inr (c \<le> 0))
                 else Inr False) of
          Inl e \<Rightarrow> Inl e
        | Inr True \<Rightarrow> phrase_loop E i positive_only contrib order phrases
        | Inr False \<Rightarrow>
            (case render E i idx of
               Inl e \<Rightarrow> Inl e
             | Inr phrase \<Rightarrow>
                 phrase_loop E i positive_only contrib order
                   (if phrase \<noteq> [] then phrases @ [phrase] else phrases)))"

definition generic_reason :: string where
  "generic_reason = ''elevated churn risk across multiple signals''"

definition observed_reason :: string where
  "observed_reason = ''observed churn within 90 days''"

text \<open>The body of the loop over the rows for the predicted labels: the reason of row \<open>i\<close>,
  or the exception that leaves the loop.\<close>

definition explain_row :: "explain_env \<Rightarrow> int list \<Rightarrow> nat \<Rightarrow> error + string" where
  "explain_row E pred i =
     (case contribution E i of
        Inl e \<Rightarrow> Inl e
      | Inr contrib \<Rightarrow>
          (case nth_err pred i of
             Inl e \<Rightarrow> Inl e
           | Inr p \<Rightarrow>
               (let order = (if p = 1 then rev (argsort contrib)
                             else rev (argsort (map abs contrib))) in
                case phrase_loop E i (p = 1) contrib order [] of
                  Inl e \<Rightarrow> Inl e
                | Inr phrases \<Rightarrow>
                    Inr (if phrases \<noteq> [] then join ''; '' phrases else generic_reason))))"

text \<open>The body of the loop for the actual labels: \<open>None\<close> is \<^verbatim>\<open>continue\<close>.\<close>

definition actual_row :: "explain_env \<Rightarrow> int list \<Rightarrow> nat \<Rightarrow> error + string option" where
  "actual_row E actual i =
     (case nth_err actual i of
        Inl e \<Rightarrow> Inl e
      | Inr a \<Rightarrow>
          if a \<noteq> 1 then Inr None
          else (case contribution E i of
              Inl e \<Rightarrow> Inl e
            | Inr contrib \<Rightarrow>
                (case phrase_loop E i True contrib (rev (argsort contrib)) [] of
                   Inl e \<Rightarrow> Inl e
                 | Inr phrases \<Rightarrow>
                     Inr (Some (if phrases \<noteq> [] then join ''; '' phrases else observed_reason)))))"

text \<open>
  \<^verbatim>\<open>try: for i in range(n): ... reasons[i] = ... except Exception: pass\<close>. The \<^verbatim>\<open>try\<close> is
  around the whole loop: the first exception ends the loop, and the list keeps what it
  held at that moment.
\<close>

fun reasons_loop :: "(nat \<Rightarrow> error + string) \<Rightarrow> nat list \<Rightarrow> string list \<Rightarrow> string list" where
  "reasons_loop body [] reasons = reasons"
| "reasons_loop body (i # todo) reasons =
     (case body i of
        Inl e \<Rightarrow> reasons
      | Inr r \<Rightarrow> reasons_loop body todo (reasons[i := r]))"

fun actual_loop :: "(nat \<Rightarrow> error + string option) \<Rightarrow> nat list \<Rightarrow> string list \<Rightarrow> string list" where
  "actual_loop body [] reasons = reasons"
| "actual_loop body (i # todo) reasons =
     (case body i of
        Inl e \<Rightarrow> reasons
      | Inr None \<Rightarrow> actual_loop body todo reasons
      | Inr (Some r) \<Rightarrow> actual_loop body todo (reasons[i := r]))"

definition predicted_reasons :: "explain_env \<Rightarrow> int list \<Rightarrow> nat \<Rightarrow> string list" where
  "predicted_reasons E pred n = reasons_loop (explain_row E pred) [0..<n] (replicate n [])"

definition actual_reasons :: "explain_env \<Rightarrow> int list \<Rightarrow> nat \<Rightarrow> string list" where
  "actual_reasons E actual n = actual_loop (actual_row E actual) [0..<n] (replicate n [])"

subsection \<open>The whole function\<close>

text \<open>
  The result frame, column by column. Two columns are left out: \<^verbatim>\<open>as_of_date\<close>, a copy
  of the date column as text, and \<^verbatim>\<open>predicted_churn_probability_90d_pct\<close>, the rounded
  product of the probability with 100 in floating point.
\<close>

record prediction =
  customer_id :: "cell list"
  predicted_churn_90d :: "int list"
  predicted_churn_probability_90d :: "real list"
  predicted_churn_reason_90d :: "string list"
  actual_churned_90d :: "int list option"
  actual_churn_reason_90d :: "string list option"

text \<open>\<^verbatim>\<open>X = work[cfg.feature_cols].to_numpy()\<close> with \<^verbatim>\<open>work = _coerce_types(df, ...)\<close>\<close>

definition feature_matrix :: "dataframe \<Rightarrow> MLConfig \<Rightarrow> real option list list" where
  "feature_matrix df cfg = to_numpy (coerce_types df (feature_cols cfg)) (feature_cols cfg)"

text \<open>\<^verbatim>\<open>pred = (proba >= 0.5).astype(int)\<close>\<close>

definition predict_labels :: "real list \<Rightarrow> int list" where
  "predict_labels proba = map (\<lambda>p. if 1 / 2 \<le> p then 1 else 0) proba"

text \<open>What the two loops over the rows get to see after \<^verbatim>\<open>Xt = pre.transform(X)\<close> and
  \<^verbatim>\<open>phi = _shap_contributions(pipe, X, cfg.feature_cols)\<close>.\<close>

definition explanation_env ::
  "bool \<Rightarrow> (fitted \<Rightarrow> real list list \<Rightarrow> error + real list list) \<Rightarrow> dataframe \<Rightarrow> MLConfig
     \<Rightarrow> pipeline \<Rightarrow> real option list list \<Rightarrow> real list list \<Rightarrow> explain_env"
where
  "explanation_env has_shap shap df cfg pipe X Xt =
     \<lparr>e_df = df, e_cols = feature_cols cfg, e_pipe = pipe, e_Xt = Xt,
      e_phi = shap_contributions has_shap shap pipe X\<rparr>"

text \<open>
  \<open>train_and_predict fit has_shap shap df cfg\<close>. The parameters before the frame are the
  library: \<open>fit\<close> is \<^verbatim>\<open>pipe.fit\<close>, \<open>has_shap\<close> tells whether the package \<^verbatim>\<open>shap\<close> could be
  imported, \<open>shap\<close> is its explainer. The steps are in the order of the source; a data
  frame whose columns differ in length (\<open>length proba \<noteq> n\<close>) is refused by the
  \<^verbatim>\<open>pd.DataFrame\<close> constructor.
\<close>

definition train_and_predict ::
  "(real option list list \<Rightarrow> int list \<Rightarrow> error + fitted) \<Rightarrow> bool
     \<Rightarrow> (fitted \<Rightarrow> real list list \<Rightarrow> error + real list list)
     \<Rightarrow> dataframe \<Rightarrow> MLConfig \<Rightarrow> error + prediction"
where
  "train_and_predict fit has_shap shap df cfg =
     (let missing = filter (\<lambda>c. c \<notin> set (colnames df)) (feature_cols cfg) in
      if missing \<noteq> [] then Inl ValueError
      else
        (let work = coerce_types df (feature_cols cfg);
             X = feature_matrix df cfg;
             y = target_labels work cfg;
             pipe = build_pipeline (length (feature_cols cfg))
         in
         case (case y of None \<Rightarrow> Inr pipe | Some ys \<Rightarrow> map_sum id Some (fit X ys)) of
           Inl e \<Rightarrow> Inl e
         | Inr pipe \<Rightarrow>
             (let proba = (case pipe of
                             None \<Rightarrow> replicate (length X) 0
                           | Some m \<Rightarrow> predict_proba1 m X);
                  pred = predict_labels proba;
                  n = length (rows df)
              in
              if customer_id_col cfg \<notin> set (colnames df) then Inl KeyError
              else if length proba \<noteq> n then Inl ValueError
              else
                (case pre_transform pipe X of
                   Inl e \<Rightarrow> Inl e
                 | Inr Xt \<Rightarrow>
                     (let E = explanation_env has_shap shap df cfg pipe X Xt;
                          reasons = predicted_reasons E pred n;
                          actual = target_labels df cfg
                      in
                      Inr \<lparr>customer_id = map (\<lambda>r. r (customer_id_col cfg)) (rows df),
                           predicted_churn_90d = pred,
                           predicted_churn_probability_90d = proba,
                           predicted_churn_reason_90d = reasons,
                           actual_churned_90d = actual,
                           actual_churn_reason_90d =
                             map_option (\<lambda>a. actual_reasons E a n) actual\<rparr>)))))"

text \<open>
  The inner loop once more, with each phrase tagged by the index of the feature it was
  rendered for. The source keeps the phrases only; the tags tell which contribution a
  phrase belongs to.
\<close>

fun tagged_loop ::
  "explain_env \<Rightarrow> nat \<Rightarrow> bool \<Rightarrow> real list \<Rightarrow> nat list \<Rightarrow> (nat \<times> string) list
     \<Rightarrow> error + (nat \<times> string) list"
where
  "tagged_loop E i positive_only contrib [] sel = Inr sel"
| "tagged_loop E i positive_only contrib (idx # order) sel =
     (if 3 \<le> length sel then Inr sel
      else case (if positive_only
                 then (case nth_err contrib idx of Inl e \<Rightarrow> Inl e | Inr c \<Rightarrow> Inr (c \<le> 0))
                 else Inr False) of
          Inl e \<Rightarrow> Inl e
        | Inr True \<Rightarrow> tagged_loop E i positive_only contrib order sel
        | Inr False \<Rightarrow>
            (case render E i idx of
               Inl e \<Rightarrow> Inl e
             | Inr phrase \<Rightarrow>
                 tagged_loop E i positive_only contrib order
                   (if phrase \<noteq> [] then sel @ [(idx, phrase)] else sel)))"

text \<open>
  A run in which every step before the explanation succeeds with the fitted pipeline \<open>m\<close>:
  the features and the label column are present, \<^verbatim>\<open>pipe.fit\<close> returns \<open>m\<close> on the labels, the customer
  column is present and the library gives one probability per row. \<open>run_env\<close> and
  \<open>run_pred\<close> are the environment and the labels that the loops over the rows then see.
\<close>

definition fitted_run ::
  "(real option list list \<Rightarrow> int list \<Rightarrow> error + fitted) \<Rightarrow> dataframe \<Rightarrow> MLConfig \<Rightarrow> fitted \<Rightarrow> bool"
where
  "fitted_run fit df cfg m =
     (set (feature_cols cfg) \<subseteq> set (colnames df)
      \<and> (case target_labels (coerce_types df (feature_cols cfg)) cfg of
            None \<Rightarrow> False
          | Some ys \<Rightarrow> fit (feature_matrix df cfg) ys = Inr m)
      \<and> customer_id_col cfg \<in> set (colnames df)
      \<and> length (predict_proba1 m (feature_matrix df cfg)) = length (rows df))"

definition run_env ::
  "bool \<Rightarrow> (fitted \<Rightarrow> real list list \<Rightarrow> error + real list list) \<Rightarrow> dataframe \<Rightarrow> MLConfig
     \<Rightarrow> fitted \<Rightarrow> explain_env"
where
  "run_env has_shap shap df cfg m =
     explanation_env has_shap shap df cfg (Some m) (feature_matrix df cfg)
       (transform_fn m (feature_matrix df cfg))"

definition run_pred :: "dataframe \<Rightarrow> MLConfig \<Rightarrow> fitted \<Rightarrow> int list" where
  "run_pred df cfg m = predict_labels (predict_proba1 m (feature_matrix df cfg))"

text \<open>
  The contribution that belongs to the feature at position \<open>idx\<close> of the configured list.
  The imputer of the pipeline drops a feature column that holds no number at all; the
  transformed matrix, the coefficients and the contribution vector of a row then have
  fewer entries than \<^verbatim>\<open>cfg.feature_cols\<close>, and an entry no longer belongs to the feature at
  its position. The vector is aligned with the features exactly when it has one entry
  per feature.
\<close>

definition feature_contribution :: "string list \<Rightarrow> real list \<Rightarrow> nat \<Rightarrow> real option" where
  "feature_contribution cols contrib idx =
     (if length contrib = length cols \<and> idx < length cols then Some (contrib ! idx) else None)"

text \<open>A tagged phrase \<open>(idx, phrase)\<close> belongs to a risk driver of row \<open>i\<close>: the contribution
  of the feature at position \<open>idx\<close> is strictly positive, and the phrase is the non-empty
  text rendered for that feature.\<close>

definition qualifies :: "explain_env \<Rightarrow> nat \<Rightarrow> real list \<Rightarrow> nat \<times> string \<Rightarrow> bool" where
  "qualifies E i contrib t =
     ((case feature_contribution (e_cols E) contrib (fst t) of None \<Rightarrow> False | Some c \<Rightarrow> 0 < c)
      \<and> snd t \<noteq> [] \<and> render E i (fst t) = Inr (snd t))"

section \<open>Concrete inputs\<close>

text \<open>
  Two spellings of one refresh target, a database that always succeeds, and the worlds
  that the examples below start from: a fresh directory, a state file written by a run
  at a given time, a state file with a malformed entry, a directory in which nothing can
  be written, and a directory \<^verbatim>\<open>.state\<close> that may not be searched.
\<close>

definition cfg_upper :: Config where
  "cfg_upper = \<lparr>server = ''SQL01'', database = ''Sap'', auth = ''windows'', username = None,
     password = None, odbc_driver = None, encrypt = True, trust_server_certificate = True,
     timeout = 30\<rparr>"

definition cfg_lower :: Config where
  "cfg_lower = \<lparr>server = ''sql01'', database = ''sap'', auth = ''windows'', username = None,
     password = None, odbc_driver = None, encrypt = True, trust_server_certificate = True,
     timeout = 30\<rparr>"

definition db_ok :: "Config \<Rightarrow> string \<Rightarrow> string \<Rightarrow> error + unit" where
  "db_ok cfg sp_name schema = Inr ()"

definition demo_key :: string where
  "demo_key = ''sql01|sap|dbo|sp_build''"

definition world_fresh :: world where
  "world_fresh = \<lparr>sfile = Absent, writable = True, executions = 0\<rparr>"

definition world_ran_at :: "int \<Rightarrow> nat \<Rightarrow> world" where
  "world_ran_at t n =
     \<lparr>sfile = Holds (Json (Obj (Map.empty(demo_key \<mapsto> JIso (Aware t 0))))),
      writable = True, executions = n\<rparr>"

definition world_malformed :: world where
  "world_malformed =
     \<lparr>sfile = Holds (Json (Obj (Map.empty(demo_key \<mapsto> JText ''yesterday'')))),
      writable = True, executions = 0\<rparr>"

definition world_readonly :: world where
  "world_readonly = \<lparr>sfile = Absent, writable = False, executions = 0\<rparr>"

definition world_locked :: world where
  "world_locked = \<lparr>sfile = Unsearchable, writable = False, executions = 0\<rparr>"

text \<open>A policy of a hundred million hours, which is more than eleven thousand years.\<close>

definition policy_huge :: SPRunPolicy where
  "policy_huge = \<lparr>ttl_hours = 100000000\<rparr>"

text \<open>Two servers whose names are one German word, in small letters with the sharp s and
  in capitals.\<close>

definition cfg_small :: Config where
  "cfg_small = \<lparr>server = ''stra'' @ [sharp_s] @ ''e'', database = ''sap'', auth = ''windows'',
     username = None, password = None, odbc_driver = None, encrypt = True,
     trust_server_certificate = True, timeout = 30\<rparr>"

definition cfg_capital :: Config where
  "cfg_capital = \<lparr>server = ''STRASSE'', database = ''sap'', auth = ''windows'',
     username = None, password = None, odbc_driver = None, encrypt = True,
     trust_server_certificate = True, timeout = 30\<rparr>"

subsection \<open>Frames and fitted pipelines\<close>

text \<open>
  A configuration with two of the features, \<^verbatim>\<open>recency_days\<close> and \<^verbatim>\<open>lateness_component\<close>,
  and two frames for it.

  \<open>frame_unlabelled\<close> has the customer, the date and both features, and no label column.

  \<open>frame_text\<close> has four records with labels 0, 1, 0, 1. Its \<^verbatim>\<open>recency_days\<close> are
  30, 10, 30, 10; its \<^verbatim>\<open>lateness_component\<close> is the text "n/a" in the first record and 1
  in the others. After coercion the second column is missing, 1, 1, 1; the median fills
  the gap, so the column is constant and is transformed to zeros, with coefficient zero.
  The first column has mean 20 and deviation 10 and is transformed to 1, -1, 1, -1; the
  churners are the records with the small value, so its coefficient is negative.
  \<open>fitted_text\<close> holds these values (the coefficient and the probabilities to two
  decimals), and \<open>fit_text\<close> is a library that returns it.
\<close>

definition cfg2 :: MLConfig where
  "cfg2 = \<lparr>customer_id_col = ''customer_id'',
           feature_cols = [''recency_days'', ''lateness_component''],
           target_col = Some ''churned_hard90'', date_col = Some ''as_of_date''\<rparr>"

definition mk_row :: "cell \<Rightarrow> cell \<Rightarrow> cell \<Rightarrow> cell \<Rightarrow> string \<Rightarrow> cell" where
  "mk_row cid recency lateness label c =
     (if c = ''customer_id'' then cid
      else if c = ''recency_days'' then recency
      else if c = ''lateness_component'' then lateness
      else if c = ''churned_hard90'' then label
      else CNone)"

definition frame_unlabelled :: dataframe where
  "frame_unlabelled =
     \<lparr>colnames = [''customer_id'', ''as_of_date'', ''recency_days'', ''lateness_component''],
      rows = [mk_row (CNum 7) (CNum 100) (CNum 1) CNone]\<rparr>"

definition frame_text :: dataframe where
  "frame_text =
     \<lparr>colnames = [''customer_id'', ''as_of_date'', ''recency_days'', ''lateness_component'',
                  ''churned_hard90''],
      rows = [mk_row (CNum 1) (CNum 30) (CText ''n/a'') (CNum 0),
              mk_row (CNum 2) (CNum 10) (CNum 1) (CNum 1),
              mk_row (CNum 3) (CNum 30) (CNum 1) (CNum 0),
              mk_row (CNum 4) (CNum 10) (CNum 1) (CNum 1)]\<rparr>"

definition fitted_text :: fitted where
  "fitted_text =
     \<lparr>transform_fn = (\<lambda>X. [[1, 0], [- 1, 0], [1, 0], [- 1, 0]]),
      predict_proba1 = (\<lambda>X. [26 / 100, 74 / 100, 26 / 100, 74 / 100]),
      coef = [- 104 / 100, 0]\<rparr>"

definition fit_text :: "real option list list \<Rightarrow> int list \<Rightarrow> error + fitted" where
  "fit_text X y = Inr fitted_text"

definition no_shap :: "fitted \<Rightarrow> real list list \<Rightarrow> error + real list list" where
  "no_shap m Xt = Inl ValueError"

definition env_text :: explain_env where
  "env_text = run_env False no_shap frame_text cfg2 fitted_text"

definition pred_text :: "int list" where
  "pred_text = run_pred frame_text cfg2 fitted_text"

text \<open>
  \<open>frame_clean\<close>: four records with labels 0, 1, 0, 1, \<^verbatim>\<open>recency_days\<close> 10, 30, 10, 30 and
  \<^verbatim>\<open>lateness_component\<close> 1 throughout. The first column is transformed to -1, 1, -1, 1 and
  has a positive coefficient, the second is constant.

  \<open>frame_const\<close>: two records with labels 0 and 1 and both features constant. Both columns
  are transformed to zeros, all coefficients and the intercept are zero, and both
  probabilities are one half, so both records are predicted as churn.
\<close>

definition frame_clean :: dataframe where
  "frame_clean =
     \<lparr>colnames = [''customer_id'', ''as_of_date'', ''recency_days'', ''lateness_component'',
                  ''churned_hard90''],
      rows = [mk_row (CNum 1) (CNum 10) (CNum 1) (CNum 0),
              mk_row (CNum 2) (CNum 30) (CNum 1) (CNum 1),
              mk_row (CNum 3) (CNum 10) (CNum 1) (CNum 0),
              mk_row (CNum 4) (CNum 30) (CNum 1) (CNum 1)]\<rparr>"

definition fitted_clean :: fitted where
  "fitted_clean =
     \<lparr>transform_fn = (\<lambda>X. [[- 1, 0], [1, 0], [- 1, 0], [1, 0]]),
      predict_proba1 = (\<lambda>X. [26 / 100, 74 / 100, 26 / 100, 74 / 100]),
      coef = [104 / 100, 0]\<rparr>"

definition fit_clean :: "real option list list \<Rightarrow> int list \<Rightarrow> error + fitted" where
  "fit_clean X y = Inr fitted_clean"

definition frame_const :: dataframe where
  "frame_const =
     \<lparr>colnames = [''customer_id'', ''as_of_date'', ''recency_days'', ''lateness_component'',
                  ''churned_hard90''],
      rows = [mk_row (CNum 1) (CNum 10) (CNum 1) (CNum 0),
              mk_row (CNum 2) (CNum 10) (CNum 1) (CNum 1)]\<rparr>"

definition fitted_const :: fitted where
  "fitted_const =
     \<lparr>transform_fn = (\<lambda>X. [[0, 0], [0, 0]]),
      predict_proba1 = (\<lambda>X. [1 / 2, 1 / 2]),
      coef = [0, 0]\<rparr>"

definition fit_const :: "real option list list \<Rightarrow> int list \<Rightarrow> error + fitted" where
  "fit_const X y = Inr fitted_const"

definition env_clean :: explain_env where
  "env_clean = run_env False no_shap frame_clean cfg2 fitted_clean"

definition pred_clean :: "int list" where
  "pred_clean = run_pred frame_clean cfg2 fitted_clean"

definition env_const :: explain_env where
  "env_const = run_env False no_shap frame_const cfg2 fitted_const"

definition pred_const :: "int list" where
  "pred_const = run_pred frame_const cfg2 fitted_const"

text \<open>
  \<open>frame_dropped\<close>: four records with labels 0, 1, 0, 1 whose \<^verbatim>\<open>recency_days\<close> are all missing
  and whose \<^verbatim>\<open>lateness_component\<close> is 0, 1, 0, 1. The imputer drops the first column: the
  transformed matrix has the one column -1, 1, -1, 1 of \<^verbatim>\<open>lateness_component\<close>, with one
  positive coefficient.
\<close>

definition frame_dropped :: dataframe where
  "frame_dropped =
     \<lparr>colnames = [''customer_id'', ''as_of_date'', ''recency_days'', ''lateness_component'',
                  ''churned_hard90''],
      rows = [mk_row (CNum 1) CNone (CNum 0) (CNum 0),
              mk_row (CNum 2) CNone (CNum 1) (CNum 1),
              mk_row (CNum 3) CNone (CNum 0) (CNum 0),
              mk_row (CNum 4) CNone (CNum 1) (CNum 1)]\<rparr>"

definition fitted_dropped :: fitted where
  "fitted_dropped =
     \<lparr>transform_fn = (\<lambda>X. [[- 1], [1], [- 1], [1]]),
      predict_proba1 = (\<lambda>X. [26 / 100, 74 / 100, 26 / 100, 74 / 100]),
      coef = [104 / 100]\<rparr>"

definition fit_dropped :: "real option list list \<Rightarrow> int list \<Rightarrow> error + fitted" where
  "fit_dropped X y = Inr fitted_dropped"

definition env_dropped :: explain_env where
  "env_dropped = run_env False no_shap frame_dropped cfg2 fitted_dropped"

definition pred_dropped :: "int list" where
  "pred_dropped = run_pred frame_dropped cfg2 fitted_dropped"

section \<open>Properties of the refresh gate\<close>

subsection \<open>Case\<close>

lemma sharp_s_code: "c = sharp_s \<longleftrightarrow> (of_char c :: nat) = 223"
proof -
  have "(of_char sharp_s :: nat) = 223"
    by (simp add: sharp_s_def)
  then show ?thesis
    using of_char_eq_iff [of c sharp_s, where ?'a = nat] by auto
qed

lemma micro_code: "c = CHR 0xB5 \<longleftrightarrow> (of_char c :: nat) = 181"
proof -
  have "(of_char (CHR 0xB5) :: nat) = 181"
    by simp
  then show ?thesis
    using of_char_eq_iff [of c "CHR 0xB5", where ?'a = nat] by auto
qed

lemma y_diaeresis_code: "c = CHR 0xFF \<longleftrightarrow> (of_char c :: nat) = 255"
proof -
  have "(of_char (CHR 0xFF) :: nat) = 255"
    by simp
  then show ?thesis
    using of_char_eq_iff [of c "CHR 0xFF", where ?'a = nat] by auto
qed

lemma upper_char_code:
  "c \<noteq> sharp_s \<Longrightarrow> upper_char c = [upper_code (of_char c)]"
  by (simp add: upper_char_def upper_code_def is_lower_def sharp_s_code micro_code
      y_diaeresis_code Let_def)

lemma lower_char_code: "(of_char (lower_char c) :: nat) = lower_code (of_char c)"
proof (cases "is_upper c")
  case True
  then have cond: "(65 \<le> (of_char c :: nat) \<and> (of_char c :: nat) \<le> 90)
      \<or> (192 \<le> (of_char c :: nat) \<and> (of_char c :: nat) \<le> 222 \<and> (of_char c :: nat) \<noteq> 215)"
    by (simp add: is_upper_def Let_def)
  then have "(of_char c :: nat) + 32 < 256"
    by auto
  then have "((of_char c :: nat) + 32) mod 256 = of_char c + 32"
    by simp
  then have "(of_char (lower_char c) :: nat) = of_char c + 32"
    using True by (simp add: lower_char_def)
  also have "\<dots> = lower_code (of_char c)"
    using cond by (simp only: lower_code_def if_True)
  finally show ?thesis .
next
  case False
  then have cond: "\<not> ((65 \<le> (of_char c :: nat) \<and> (of_char c :: nat) \<le> 90)
      \<or> (192 \<le> (of_char c :: nat) \<and> (of_char c :: nat) \<le> 222 \<and> (of_char c :: nat) \<noteq> 215))"
    by (simp add: is_upper_def Let_def)
  have "(of_char (lower_char c) :: nat) = of_char c"
    using False by (simp add: lower_char_def)
  also have "\<dots> = lower_code (of_char c)"
    using cond by (simp only: lower_code_def if_False)
  finally show ?thesis .
qed

lemma lower_code_of_upper_code:
  assumes "n < 256" and "n \<noteq> 223"
  shows "lower_code n =
     (if upper_code n = 924 then 181 else if upper_code n = 376 then 255
      else lower_code (upper_code n))"
  using assms unfolding upper_code_def lower_code_def
  by (simp split: if_splits) linarith

lemma upper_code_lower_code:
  assumes "n < 256" and "k < 256" and "n \<noteq> 223" and "k \<noteq> 223"
    and "upper_code n = upper_code k"
  shows "lower_code n = lower_code k"
  using lower_code_of_upper_code [OF assms(1,3)] lower_code_of_upper_code [OF assms(2,4)]
    assms(5)
  by (simp only:)

lemma lower_char_same_upper:
  assumes "a \<noteq> sharp_s" and "b \<noteq> sharp_s" and "upper_char a = upper_char b"
  shows "lower_char a = lower_char b"
proof -
  from assms have eq: "upper_code (of_char a) = upper_code (of_char b)"
    by (simp add: upper_char_code)
  from assms have na: "(of_char a :: nat) \<noteq> 223" and nb: "(of_char b :: nat) \<noteq> 223"
    by (simp_all add: sharp_s_code)
  have la: "(of_char a :: nat) < 256" and lb: "(of_char b :: nat) < 256"
    by simp_all
  have "lower_code (of_char a) = lower_code (of_char b)"
    using la lb na nb eq by (rule upper_code_lower_code)
  then have "(of_char (lower_char a) :: nat) = of_char (lower_char b)"
    by (simp only: lower_char_code)
  then show ?thesis
    by (simp only: of_char_eq_iff)
qed

lemma upper_Cons: "upper (c # s) = upper_char c @ upper s"
  by (simp add: upper_def)

lemma lower_same_upper:
  assumes "sharp_s \<notin> set s" and "sharp_s \<notin> set t" and "upper s = upper t"
  shows "lower s = lower t"
  using assms
proof (induction s arbitrary: t)
  case Nil
  show ?case
  proof (cases t)
    case Nil
    then show ?thesis by simp
  next
    case (Cons b t')
    with Nil.prems have "b \<noteq> sharp_s" by auto
    with Nil.prems Cons show ?thesis
      by (simp add: upper_def upper_char_code)
  qed
next
  case (Cons a s)
  then have a: "a \<noteq> sharp_s" by auto
  show ?case
  proof (cases t)
    case Nil
    with Cons.prems a show ?thesis
      by (simp add: upper_def upper_char_code)
  next
    case (Cons b t')
    with Cons.prems have b: "b \<noteq> sharp_s" by auto
    from Cons.prems(3) Cons a b have
      ab: "upper_char a = upper_char b" and rest: "upper s = upper t'"
      by (simp_all add: upper_Cons upper_char_code)
    from Cons.prems Cons have "sharp_s \<notin> set s" "sharp_s \<notin> set t'"
      by auto
    then have "lower s = lower t'"
      using rest by (rule Cons.IH)
    moreover have "lower_char a = lower_char b"
      using a b ab by (rule lower_char_same_upper)
    ultimately show ?thesis
      using Cons by (simp add: lower_def)
  qed
qed

lemmas lower_defs = lower_def lower_char_def is_upper_def char_of_eq_iff Let_def

lemmas upper_defs = differ_only_in_case_def upper_def upper_char_def is_lower_def sharp_s_def
  Let_def

lemma sp_key_upper: "sp_key cfg_upper ''SP_Build'' ''DBO'' = demo_key"
  by (simp add: sp_key_def cfg_upper_def demo_key_def lower_defs)

lemma sp_key_lower: "sp_key cfg_lower ''sp_build'' ''dbo'' = demo_key"
  by (simp add: sp_key_def cfg_lower_def demo_key_def lower_defs)

subsection \<open>Loading, marking and deciding\<close>

lemma load_state_Holds: "load_state (Holds (Json d)) = Inr d"
  by (simp add: load_state_def)

lemma load_state_Absent: "load_state Absent = Inr (Obj Map.empty)"
  by (simp add: load_state_def)

lemma load_state_not_Unsearchable: "load_state f = Inr d \<Longrightarrow> f \<noteq> Unsearchable"
  by (auto simp: load_state_def)

text \<open>A file that can be found and cannot be read, or whose text is no JSON, loads as the
  empty dictionary.\<close>

lemma load_state_corrupt:
  "load_state Unreadable = Inr (Obj Map.empty) \<and> load_state (Holds NotJson) = Inr (Obj Map.empty)"
  by (simp add: load_state_def)

lemma mark_ran_Obj:
  assumes "load_state (sfile w) = Inr (Obj m)" and "writable w"
  shows "mark_ran w clock cfg sp_name schema =
     Inr (w\<lparr>sfile := Holds (Json (Obj (m(sp_key cfg sp_name schema \<mapsto> JIso (Aware clock 0)))))\<rparr>)"
  using assms load_state_not_Unsearchable [OF assms(1)]
  by (simp add: mark_ran_def save_state_def isoformat_def now_utc_def)

lemma execute_and_mark_ok:
  assumes "load_state (sfile w) = Inr (Obj m)" and "writable w"
    and "db cfg sp_name schema = Inr ()"
  shows "execute_and_mark db clock2 w cfg sp_name schema why =
     (Inr \<lparr>ran_flag = True, reason = why\<rparr>,
      w\<lparr>executions := Suc (executions w),
        sfile := Holds (Json (Obj (m(sp_key cfg sp_name schema \<mapsto> JIso (Aware clock2 0)))))\<rparr>)"
proof -
  let ?w1 = "w\<lparr>executions := Suc (executions w)\<rparr>"
  have "load_state (sfile ?w1) = Inr (Obj m)" and "writable ?w1"
    using assms by simp_all
  then have "mark_ran ?w1 clock2 cfg sp_name schema =
     Inr (?w1\<lparr>sfile := Holds (Json (Obj (m(sp_key cfg sp_name schema \<mapsto> JIso (Aware clock2 0)))))\<rparr>)"
    by (rule mark_ran_Obj)
  with assms(3) show ?thesis
    by (simp add: execute_and_mark_def)
qed

lemma should_run_Unknown:
  assumes "load_state f = Inr (Obj m)" and "m (sp_key cfg sp_name schema) = None"
  shows "should_run f clock cfg sp_name schema p = Inr (True, None)"
  using assms by (simp add: should_run_def)

lemma should_run_Known:
  assumes "load_state f = Inr (Obj m)"
    and "m (sp_key cfg sp_name schema) = Some (JIso (Aware l off))"
    and "ttl p = Inr d"
    and "datetime_min \<le> l + d" and "l + d \<le> datetime_max"
  shows "should_run f clock cfg sp_name schema p = Inr (l - off + d \<le> clock, Some (Aware l off))"
proof -
  have "l + d - off \<le> clock \<longleftrightarrow> l - off + d \<le> clock"
    by linarith
  with assms show ?thesis
    by (simp add: should_run_def now_utc_def)
qed

lemma ttl_in_range:
  assumes "d = ttl_hours p * 3600000000"
    and "- timedelta_max_days \<le> d div 86400000000" and "d div 86400000000 \<le> timedelta_max_days"
  shows "ttl p = Inr d"
  using assms by (simp add: ttl_def timedelta_hours_def Let_def)

lemma gate_of_Unknown: "gate_of (Obj m) k = Some Unknown \<longleftrightarrow> m k = None"
  by (auto split: option.splits jvalue.splits datetime.splits)

subsection \<open>The claims on the gate\<close>

text \<open>
  C5 as stated fails in two ways. With a policy of a hundred million hours and a last run
  at time 1001, the clock 1002 lies before \<open>t + ttl\<close>, but \<^verbatim>\<open>last + policy.ttl()\<close> leaves the
  range of \<^verbatim>\<open>datetime\<close>: \<open>maybe_run_sp\<close> raises \<^verbatim>\<open>OverflowError\<close> instead of skipping. And where
  the state file cannot be written, a forced call executes the procedure and then raises
  in \<^verbatim>\<open>_save_state\<close>: nothing is recorded, the key is Unknown as before.
\<close>

theorem maybe_run_sp_gate_counterexample:
  "(1002 :: int) < 1001 + ttl_hours policy_huge * 3600000000
   \<and> maybe_run_sp db_ok 1002 1003 (world_ran_at 1001 1) cfg_upper ''SP_Build'' ''DBO'' False
        (Some policy_huge) = (Inl OverflowError, world_ran_at 1001 1)
   \<and> maybe_run_sp db_ok 1000 1001 world_readonly cfg_upper ''SP_Build'' ''DBO'' True None
        = (Inl OSError, world_readonly\<lparr>executions := 1\<rparr>)
   \<and> map_sum id (\<lambda>doc. gate_of doc demo_key)
        (load_state (sfile (world_readonly\<lparr>executions := 1\<rparr>))) = Inr (Some Unknown)"
proof -
  have a: "(1002 :: int) < 1001 + ttl_hours policy_huge * 3600000000"
    by (simp add: policy_huge_def)
  have "should_run (sfile (world_ran_at 1001 1)) 1002 cfg_upper ''SP_Build'' ''DBO'' policy_huge
      = Inl OverflowError"
    by (simp add: should_run_def world_ran_at_def load_state_Holds sp_key_upper ttl_def
        timedelta_hours_def timedelta_max_days_def policy_huge_def datetime_max_def
        datetime_min_def)
  then have b: "maybe_run_sp db_ok 1002 1003 (world_ran_at 1001 1) cfg_upper ''SP_Build'' ''DBO''
      False (Some policy_huge) = (Inl OverflowError, world_ran_at 1001 1)"
    by (simp add: maybe_run_sp_def policy_or_default_def)
  have c: "maybe_run_sp db_ok 1000 1001 world_readonly cfg_upper ''SP_Build'' ''DBO'' True None
        = (Inl OSError, world_readonly\<lparr>executions := 1\<rparr>)"
    by (simp add: maybe_run_sp_def execute_and_mark_def db_ok_def mark_ran_def save_state_def
        world_readonly_def load_state_Absent)
  have d: "map_sum id (\<lambda>doc. gate_of doc demo_key)
        (load_state (sfile (world_readonly\<lparr>executions := 1\<rparr>))) = Inr (Some Unknown)"
    by (simp add: world_readonly_def load_state_Absent)
  from a b c d show ?thesis by (intro conjI)
qed

text \<open>
  C5, amended. Let the gate file load as a dictionary \<open>m\<close> (it is absent, unreadable, not
  JSON, or holds a JSON object), let the file be writable and let the execution of the
  procedure succeed. "Executes and records Known(now)" is the new world \<open>w'\<close>: one more
  execution, and the file holding \<open>m\<close> with the key of the target set to the ISO text of
  the UTC time of marking. Let \<open>d\<close> be the TTL in microseconds, \<open>ttl_hours\<close> times 3600000000.
  \<^item> With force, \<open>maybe_run_sp\<close> always ends in \<open>w'\<close>, whatever \<open>m\<close> holds and whatever the TTL.
  \<^item> Without force it ends in \<open>w'\<close> when the key is Unknown, whatever the TTL.
  \<^item> Without force and with the key Known, the entry being the timestamp \<open>Aware l off\<close> with
    the instant \<open>t = l - off\<close>, provided that \<open>d\<close> is a representable \<^verbatim>\<open>timedelta\<close> and
    \<open>l + d\<close> a representable \<^verbatim>\<open>datetime\<close>: it ends in \<open>w'\<close> when \<open>t + d \<le> now\<close>, and it skips,
    leaving the file and the execution count as they were, when \<open>now < t + d\<close>.
  \<^item> In \<open>w'\<close> the key is Known at the time of marking.
\<close>

theorem maybe_run_sp_gate:
  assumes st: "load_state (sfile w) = Inr (Obj m)"
    and wr: "writable w"
    and db: "db cfg sp_name schema = Inr ()"
    and w': "w' = w\<lparr>executions := Suc (executions w),
                 sfile := Holds (Json (Obj (m(sp_key cfg sp_name schema \<mapsto> JIso (Aware clock2 0)))))\<rparr>"
    and d: "d = ttl_hours (policy_or_default policy) * 3600000000"
  shows "maybe_run_sp db clock1 clock2 w cfg sp_name schema True policy =
           (Inr \<lparr>ran_flag = True, reason = Forced\<rparr>, w')
       \<and> (gate_of (Obj m) (sp_key cfg sp_name schema) = Some Unknown \<longrightarrow>
            maybe_run_sp db clock1 clock2 w cfg sp_name schema False policy =
              (Inr \<lparr>ran_flag = True, reason = Ttl_expired\<rparr>, w'))
       \<and> (\<forall>l off.
             m (sp_key cfg sp_name schema) = Some (JIso (Aware l off))
             \<and> - timedelta_max_days \<le> d div 86400000000
             \<and> d div 86400000000 \<le> timedelta_max_days
             \<and> datetime_min \<le> l + d \<and> l + d \<le> datetime_max \<longrightarrow>
             gate_of (Obj m) (sp_key cfg sp_name schema) = Some (Known (l - off))
             \<and> maybe_run_sp db clock1 clock2 w cfg sp_name schema False policy =
                 (if l - off + d \<le> clock1
                  then (Inr \<lparr>ran_flag = True, reason = Ttl_expired\<rparr>, w')
                  else (Inr \<lparr>ran_flag = False, reason = Recent (Aware l off)\<rparr>, w)))
       \<and> map_sum id (\<lambda>doc. gate_of doc (sp_key cfg sp_name schema)) (load_state (sfile w'))
            = Inr (Some (Known clock2))"
proof -
  let ?k = "sp_key cfg sp_name schema"
  let ?p = "policy_or_default policy"
  have run: "execute_and_mark db clock2 w cfg sp_name schema why =
      (Inr \<lparr>ran_flag = True, reason = why\<rparr>, w')" for why
    using execute_and_mark_ok [of w m db cfg sp_name schema clock2 why] st wr db w' by simp
  have forced: "maybe_run_sp db clock1 clock2 w cfg sp_name schema True policy =
           (Inr \<lparr>ran_flag = True, reason = Forced\<rparr>, w')"
    by (simp add: maybe_run_sp_def run)
  have unknown: "maybe_run_sp db clock1 clock2 w cfg sp_name schema False policy =
              (Inr \<lparr>ran_flag = True, reason = Ttl_expired\<rparr>, w')"
    if "gate_of (Obj m) ?k = Some Unknown"
  proof -
    from that have "m ?k = None" by (simp only: gate_of_Unknown)
    then have "should_run (sfile w) clock1 cfg sp_name schema ?p = Inr (True, None)"
      by (rule should_run_Unknown [OF st])
    then show ?thesis by (simp add: maybe_run_sp_def run)
  qed
  have known: "gate_of (Obj m) ?k = Some (Known (l - off))
             \<and> maybe_run_sp db clock1 clock2 w cfg sp_name schema False policy =
                 (if l - off + d \<le> clock1
                  then (Inr \<lparr>ran_flag = True, reason = Ttl_expired\<rparr>, w')
                  else (Inr \<lparr>ran_flag = False, reason = Recent (Aware l off)\<rparr>, w))"
    if e: "m ?k = Some (JIso (Aware l off))"
      and td: "- timedelta_max_days \<le> d div 86400000000" "d div 86400000000 \<le> timedelta_max_days"
      and dt: "datetime_min \<le> l + d" "l + d \<le> datetime_max"
    for l off
  proof -
    have "ttl ?p = Inr d"
      using d td by (rule ttl_in_range)
    then have "should_run (sfile w) clock1 cfg sp_name schema ?p =
        Inr (l - off + d \<le> clock1, Some (Aware l off))"
      using dt by (intro should_run_Known [OF st e])
    then have "maybe_run_sp db clock1 clock2 w cfg sp_name schema False policy =
                 (if l - off + d \<le> clock1
                  then (Inr \<lparr>ran_flag = True, reason = Ttl_expired\<rparr>, w')
                  else (Inr \<lparr>ran_flag = False, reason = Recent (Aware l off)\<rparr>, w))"
      by (simp add: maybe_run_sp_def run)
    moreover from e have "gate_of (Obj m) ?k = Some (Known (l - off))"
      by simp
    ultimately show ?thesis by simp
  qed
  have post: "map_sum id (\<lambda>doc. gate_of doc ?k) (load_state (sfile w')) = Inr (Some (Known clock2))"
    by (simp add: w' load_state_Holds)
  from forced unknown known post show ?thesis by blast
qed

text \<open>
  The four transitions on concrete worlds, with the default policy of 24 hours
  (86400000000 microseconds): a first call on a fresh directory runs; a call one
  microsecond after a run at time 1001 skips; a call 24 hours after that run runs again;
  a forced call runs although the last run is recent.
\<close>

theorem maybe_run_sp_gate_witness:
  "maybe_run_sp db_ok 1000 1001 world_fresh cfg_upper ''SP_Build'' ''DBO'' False None =
     (Inr \<lparr>ran_flag = True, reason = Ttl_expired\<rparr>, world_ran_at 1001 1)
   \<and> maybe_run_sp db_ok 1002 1003 (world_ran_at 1001 1) cfg_upper ''SP_Build'' ''DBO'' False None =
     (Inr \<lparr>ran_flag = False, reason = Recent (Aware 1001 0)\<rparr>, world_ran_at 1001 1)
   \<and> maybe_run_sp db_ok 86400001001 86400001002 (world_ran_at 1001 1) cfg_upper ''SP_Build''
       ''DBO'' False None =
     (Inr \<lparr>ran_flag = True, reason = Ttl_expired\<rparr>, world_ran_at 86400001002 2)
   \<and> maybe_run_sp db_ok 1002 1003 (world_ran_at 1001 1) cfg_upper ''SP_Build'' ''DBO'' True None =
     (Inr \<lparr>ran_flag = True, reason = Forced\<rparr>, world_ran_at 1003 2)"
proof -
  let ?m = "Map.empty(demo_key \<mapsto> JIso (Aware 1001 0))"
  have db: "db_ok cfg_upper ''SP_Build'' ''DBO'' = Inr ()"
    by (simp add: db_ok_def)
  have d24: "(86400000000 :: int) = ttl_hours (policy_or_default None) * 3600000000"
    by (simp add: policy_or_default_def default_policy_def)
  have range: "- timedelta_max_days \<le> (86400000000 :: int) div 86400000000
      \<and> (86400000000 :: int) div 86400000000 \<le> timedelta_max_days
      \<and> datetime_min \<le> 1001 + 86400000000 \<and> 1001 + 86400000000 \<le> datetime_max"
    by (simp add: timedelta_max_days_def datetime_min_def datetime_max_def)
  have st0: "load_state (sfile world_fresh) = Inr (Obj Map.empty)"
    by (simp add: world_fresh_def load_state_Absent)
  have wr0: "writable world_fresh"
    by (simp add: world_fresh_def)
  have g0: "gate_of (Obj Map.empty) (sp_key cfg_upper ''SP_Build'' ''DBO'') = Some Unknown"
    by simp
  have w0: "world_ran_at 1001 1 = world_fresh\<lparr>executions := Suc (executions world_fresh),
      sfile := Holds (Json (Obj (Map.empty(sp_key cfg_upper ''SP_Build'' ''DBO'' \<mapsto>
        JIso (Aware 1001 0)))))\<rparr>"
    by (simp add: world_ran_at_def world_fresh_def sp_key_upper)
  have st1: "load_state (sfile (world_ran_at 1001 1)) = Inr (Obj ?m)"
    by (simp add: world_ran_at_def load_state_Holds)
  have wr1: "writable (world_ran_at 1001 1)"
    by (simp add: world_ran_at_def)
  have e1: "?m (sp_key cfg_upper ''SP_Build'' ''DBO'') = Some (JIso (Aware 1001 0))"
    by (simp add: sp_key_upper)
  have w1: "world_ran_at c 2 = (world_ran_at 1001 1)\<lparr>executions := Suc (executions (world_ran_at 1001 1)),
      sfile := Holds (Json (Obj (?m(sp_key cfg_upper ''SP_Build'' ''DBO'' \<mapsto> JIso (Aware c 0)))))\<rparr>" for c
    by (simp add: world_ran_at_def sp_key_upper)
  have a: "maybe_run_sp db_ok 1000 1001 world_fresh cfg_upper ''SP_Build'' ''DBO'' False None =
     (Inr \<lparr>ran_flag = True, reason = Ttl_expired\<rparr>, world_ran_at 1001 1)"
    using maybe_run_sp_gate [where w = world_fresh and m = Map.empty and cfg = cfg_upper
        and sp_name = "''SP_Build''" and schema = "''DBO''" and db = db_ok
        and w' = "world_ran_at 1001 1" and ?clock2.0 = 1001 and ?clock1.0 = 1000
        and policy = None and d = 86400000000, OF st0 wr0 db w0 d24] g0
    by blast
  have b: "maybe_run_sp db_ok 1002 1003 (world_ran_at 1001 1) cfg_upper ''SP_Build'' ''DBO'' False None =
     (Inr \<lparr>ran_flag = False, reason = Recent (Aware 1001 0)\<rparr>, world_ran_at 1001 1)"
    using maybe_run_sp_gate [where w = "world_ran_at 1001 1" and m = ?m and cfg = cfg_upper
        and sp_name = "''SP_Build''" and schema = "''DBO''" and db = db_ok
        and w' = "world_ran_at 1003 2" and ?clock2.0 = 1003 and ?clock1.0 = 1002
        and policy = None and d = 86400000000, OF st1 wr1 db w1 d24] e1 range
    by auto
  have c: "maybe_run_sp db_ok 86400001001 86400001002 (world_ran_at 1001 1) cfg_upper ''SP_Build''
       ''DBO'' False None =
     (Inr \<lparr>ran_flag = True, reason = Ttl_expired\<rparr>, world_ran_at 86400001002 2)"
    using maybe_run_sp_gate [where w = "world_ran_at 1001 1" and m = ?m and cfg = cfg_upper
        and sp_name = "''SP_Build''" and schema = "''DBO''" and db = db_ok
        and w' = "world_ran_at 86400001002 2" and ?clock2.0 = 86400001002
        and ?clock1.0 = 86400001001 and policy = None and d = 86400000000,
        OF st1 wr1 db w1 d24] e1 range
    by auto
  have d: "maybe_run_sp db_ok 1002 1003 (world_ran_at 1001 1) cfg_upper ''SP_Build'' ''DBO'' True None =
     (Inr \<lparr>ran_flag = True, reason = Forced\<rparr>, world_ran_at 1003 2)"
    using maybe_run_sp_gate [where w = "world_ran_at 1001 1" and m = ?m and cfg = cfg_upper
        and sp_name = "''SP_Build''" and schema = "''DBO''" and db = db_ok
        and w' = "world_ran_at 1003 2" and ?clock2.0 = 1003 and ?clock1.0 = 1002
        and policy = None and d = 86400000000, OF st1 wr1 db w1 d24]
    by blast
  from a b c d show ?thesis by (intro conjI)
qed

text \<open>
  C6 asks that an unreadable store is treated as empty and never makes loading raise.
  \<^verbatim>\<open>_load_state\<close> absorbs the failures of reading and decoding, but its test
  \<^verbatim>\<open>STATE_FILE.exists()\<close> stands before the \<^verbatim>\<open>try\<close>: where the directory \<^verbatim>\<open>.state\<close> may not be
  searched, the store is unreadable, the test raises \<^verbatim>\<open>PermissionError\<close>, and the exception
  leaves \<open>load_state\<close>, \<open>should_run\<close> and \<open>maybe_run_sp\<close>.
\<close>

theorem load_state_unsearchable_raises:
  "load_state Unsearchable = Inl PermissionError
   \<and> should_run Unsearchable clock cfg sp_name schema policy = Inl PermissionError
   \<and> maybe_run_sp db clock1 clock2 world_locked cfg sp_name schema False policy_opt
        = (Inl PermissionError, world_locked)"
proof -
  have a: "load_state Unsearchable = Inl PermissionError"
    by (simp add: load_state_def)
  then have b: "should_run Unsearchable c cfg sp_name schema p = Inl PermissionError" for c p
    by (simp add: should_run_def)
  then have "maybe_run_sp db clock1 clock2 world_locked cfg sp_name schema False policy_opt
        = (Inl PermissionError, world_locked)"
    by (simp add: maybe_run_sp_def world_locked_def)
  with a b show ?thesis by simp
qed

text \<open>
  C7 as stated fails: the server names \<open>cfg_small\<close> and \<open>cfg_capital\<close> are one word, written
  with small letters and the sharp s and written in capitals; they have the same
  upper-case form, all other parts of the two targets are equal, and the keys differ,
  because \<^verbatim>\<open>lower()\<close> keeps the sharp s and turns SS into ss.
\<close>

theorem sp_key_case_counterexample:
  "differ_only_in_case (server cfg_small) (server cfg_capital)
   \<and> differ_only_in_case (database cfg_small) (database cfg_capital)
   \<and> differ_only_in_case ''dbo'' ''dbo''
   \<and> differ_only_in_case ''sp_build'' ''sp_build''
   \<and> sp_key cfg_small ''sp_build'' ''dbo'' \<noteq> sp_key cfg_capital ''sp_build'' ''dbo''"
proof -
  have a: "differ_only_in_case (server cfg_small) (server cfg_capital)"
    by (simp add: cfg_small_def cfg_capital_def upper_defs)
  have b: "differ_only_in_case (database cfg_small) (database cfg_capital)"
    by (simp add: cfg_small_def cfg_capital_def differ_only_in_case_def)
  have c: "differ_only_in_case ''dbo'' ''dbo''" "differ_only_in_case ''sp_build'' ''sp_build''"
    by (simp_all add: differ_only_in_case_def)
  have d: "sp_key cfg_small ''sp_build'' ''dbo'' \<noteq> sp_key cfg_capital ''sp_build'' ''dbo''"
    by (simp add: sp_key_def cfg_small_def cfg_capital_def sharp_s_def lower_defs)
  from a b c d show ?thesis by (intro conjI)
qed

text \<open>
  C7, amended. Two refresh targets whose server, database, schema and procedure name are
  texts of characters below U+0100 without the sharp s, and differ only in letter case
  (each pair has the same upper-case form), have the same gate key.
\<close>

theorem sp_key_case_insensitive:
  assumes "differ_only_in_case (server c1) (server c2)"
    and "differ_only_in_case (database c1) (database c2)"
    and "differ_only_in_case schema1 schema2"
    and "differ_only_in_case name1 name2"
    and "sharp_s \<notin> set (server c1 @ database c1 @ schema1 @ name1)"
    and "sharp_s \<notin> set (server c2 @ database c2 @ schema2 @ name2)"
  shows "sp_key c1 name1 schema1 = sp_key c2 name2 schema2"
proof -
  have "lower (server c1) = lower (server c2)"
    using assms by (intro lower_same_upper) (simp_all add: differ_only_in_case_def)
  moreover have "lower (database c1) = lower (database c2)"
    using assms by (intro lower_same_upper) (simp_all add: differ_only_in_case_def)
  moreover have "lower schema1 = lower schema2"
    using assms by (intro lower_same_upper) (simp_all add: differ_only_in_case_def)
  moreover have "lower name1 = lower name2"
    using assms by (intro lower_same_upper) (simp_all add: differ_only_in_case_def)
  ultimately show ?thesis
    by (simp add: sp_key_def)
qed

theorem sp_key_case_insensitive_witness:
  "differ_only_in_case (server cfg_upper) (server cfg_lower)
   \<and> differ_only_in_case (database cfg_upper) (database cfg_lower)
   \<and> differ_only_in_case ''DBO'' ''dbo''
   \<and> differ_only_in_case ''SP_Build'' ''sp_build''
   \<and> sharp_s \<notin> set (server cfg_upper @ database cfg_upper @ ''DBO'' @ ''SP_Build'')
   \<and> sharp_s \<notin> set (server cfg_lower @ database cfg_lower @ ''dbo'' @ ''sp_build'')
   \<and> sp_key cfg_upper ''SP_Build'' ''DBO'' = sp_key cfg_lower ''sp_build'' ''dbo''"
proof -
  have h1: "differ_only_in_case (server cfg_upper) (server cfg_lower)"
    by (simp add: cfg_upper_def cfg_lower_def upper_defs)
  have h2: "differ_only_in_case (database cfg_upper) (database cfg_lower)"
    by (simp add: cfg_upper_def cfg_lower_def upper_defs)
  have h3: "differ_only_in_case ''DBO'' ''dbo''"
    by (simp add: upper_defs)
  have h4: "differ_only_in_case ''SP_Build'' ''sp_build''"
    by (simp add: upper_defs)
  have h5: "sharp_s \<notin> set (server cfg_upper @ database cfg_upper @ ''DBO'' @ ''SP_Build'')"
    by (simp add: cfg_upper_def sharp_s_def)
  have h6: "sharp_s \<notin> set (server cfg_lower @ database cfg_lower @ ''dbo'' @ ''sp_build'')"
    by (simp add: cfg_lower_def sharp_s_def)
  from h1 h2 h3 h4 h5 h6 sp_key_case_insensitive [OF h1 h2 h3 h4 h5 h6] show ?thesis
    by (intro conjI)
qed

text \<open>
  C10. When the dictionary holds, under the key of the target, a text that is not an ISO
  timestamp, \<open>should_run\<close> answers (True, None): one malformed entry by itself means
  "must run", whatever the clock and the policy.
\<close>

theorem should_run_malformed_entry:
  assumes "load_state f = Inr (Obj m)"
    and "m (sp_key cfg sp_name schema) = Some (JText s)"
  shows "should_run f clock cfg sp_name schema policy = Inr (True, None)"
  using assms by (simp add: should_run_def)

theorem should_run_malformed_entry_witness:
  "load_state (sfile world_malformed) = Inr (Obj (Map.empty(demo_key \<mapsto> JText ''yesterday'')))
   \<and> (Map.empty(demo_key \<mapsto> JText ''yesterday'')) (sp_key cfg_upper ''SP_Build'' ''DBO'')
       = Some (JText ''yesterday'')
   \<and> should_run (sfile world_malformed) 1000 cfg_upper ''SP_Build'' ''DBO'' default_policy
       = Inr (True, None)"
proof -
  have h1: "load_state (sfile world_malformed) =
      Inr (Obj (Map.empty(demo_key \<mapsto> JText ''yesterday'')))"
    by (simp add: world_malformed_def load_state_Holds)
  have h2: "(Map.empty(demo_key \<mapsto> JText ''yesterday'')) (sp_key cfg_upper ''SP_Build'' ''DBO'')
       = Some (JText ''yesterday'')"
    by (simp add: sp_key_upper)
  from h1 h2 should_run_malformed_entry [OF h1 h2, of 1000 default_policy] show ?thesis
    by (intro conjI)
qed

section \<open>Properties of the business rule\<close>

lemma str_int_89: "str_int 89 = ''89''"
  by (simp add: str_int_def str_nat.simps digit_char_def)

lemma str_int_90: "str_int 90 = ''90''"
  by (simp add: str_int_def str_nat.simps digit_char_def)

text \<open>
  C4. For every record the threshold is 90 days plus 30 when the record is in its renewal
  grace, and the flag is 1 exactly when the days since the last purchase reach the
  threshold (a record without a usable date counts as 0 days and is never flagged). With
  no grace, 89 days give flag 0 and the reason "Recent purchase within last 90 days", and
  90 days give flag 1 and the reason "No purchases for 90 days".
\<close>

theorem business_rule_threshold:
  "threshold g = 90 + (if g then 30 else 0)
   \<and> business_churn_now_col (business_rule_row today as_of grace) =
        (if threshold (in_grace grace)
              \<le> (case days_since_purchase_today today as_of of None \<Rightarrow> 0 | Some d \<Rightarrow> d)
         then 1 else 0)
   \<and> business_rule_row today (Some (today - 89)) (CNum 0) =
        \<lparr>days_since_last_purchase_today = Some 89, business_churn_now_col = 0,
         business_churn_reason_col = ''Recent purchase within last 90 days''\<rparr>
   \<and> business_rule_row today (Some (today - 90)) (CNum 0) =
        \<lparr>days_since_last_purchase_today = Some 90, business_churn_now_col = 1,
         business_churn_reason_col = ''No purchases for 90 days''\<rparr>"
proof -
  have a: "threshold g = 90 + (if g then 30 else 0)"
    by (simp add: threshold_def)
  have b: "business_churn_now_col (business_rule_row today as_of grace) =
        (if threshold (in_grace grace)
              \<le> (case days_since_purchase_today today as_of of None \<Rightarrow> 0 | Some d \<Rightarrow> d)
         then 1 else 0)"
    by (cases "days_since_purchase_today today as_of")
       (simp_all add: business_rule_row_def business_churn_now_def Let_def threshold_def)
  have d: "business_rule_row today (Some (today - 89)) (CNum 0) =
        \<lparr>days_since_last_purchase_today = Some 89, business_churn_now_col = 0,
         business_churn_reason_col = ''Recent purchase within last 90 days''\<rparr>"
    by (simp add: business_rule_row_def days_since_purchase_today_def in_grace_def
        fillna_bool_def threshold_def business_churn_now_def business_churn_reason_def)
  have e: "business_rule_row today (Some (today - 90)) (CNum 0) =
        \<lparr>days_since_last_purchase_today = Some 90, business_churn_now_col = 1,
         business_churn_reason_col = ''No purchases for 90 days''\<rparr>"
    by (simp add: business_rule_row_def days_since_purchase_today_def in_grace_def
        fillna_bool_def threshold_def business_churn_now_def business_churn_reason_def str_int_90)
  from a b d e show ?thesis by (intro conjI)
qed

text \<open>
  C9. A record whose \<^verbatim>\<open>in_renewal_grace\<close> cell is \<^verbatim>\<open>nan\<close> is treated as being in its
  renewal grace: the cast to bool gives True, so the fill with False finds nothing to
  fill, and the threshold of the record is 120 days, not 90.
\<close>

theorem nan_grace_counts_as_grace:
  "astype_bool CNaN = Some True
   \<and> in_grace CNaN = True
   \<and> threshold (in_grace CNaN) = 120
   \<and> business_churn_now_col (business_rule_row today (Some (today - 100)) CNaN) = 0
   \<and> business_churn_reason_col (business_rule_row today (Some (today - 100)) CNaN) =
        ''In renewal grace period (extra 30 days)''
   \<and> business_churn_now_col (business_rule_row today (Some (today - 120)) CNaN) = 1"
  by (simp add: business_rule_row_def days_since_purchase_today_def in_grace_def
      fillna_bool_def threshold_def business_churn_now_def business_churn_reason_def)

section \<open>Properties of training, prediction and reasons\<close>

subsection \<open>The steps before the explanation\<close>

lemma colnames_coerce_types [simp]: "colnames (coerce_types df cols) = colnames df"
  by (simp add: coerce_types_def)

lemma target_labels_coerce_types_None:
  "target_labels (coerce_types df cols) cfg = None \<longleftrightarrow> target_labels df cfg = None"
  by (simp add: target_labels_def split: option.splits)

lemma length_feature_matrix [simp]: "length (feature_matrix df cfg) = length (rows df)"
  by (simp add: feature_matrix_def to_numpy_def coerce_types_def)

lemma no_missing_iff:
  "filter (\<lambda>c. c \<notin> set (colnames df)) (feature_cols cfg) = []
     \<longleftrightarrow> set (feature_cols cfg) \<subseteq> set (colnames df)"
  by (auto simp: filter_empty_conv)

text \<open>Without a label column the pipeline is never fitted, and the function leaves with an
  exception: at the latest at \<^verbatim>\<open>pre.transform(X)\<close>.\<close>

lemma train_and_predict_unlabelled:
  assumes "target_labels df cfg = None"
  shows "train_and_predict fit has_shap shap df cfg =
     (if \<not> set (feature_cols cfg) \<subseteq> set (colnames df) then Inl ValueError
      else if customer_id_col cfg \<notin> set (colnames df) then Inl KeyError
      else Inl NotFittedError)"
proof -
  from assms have "target_labels (coerce_types df (feature_cols cfg)) cfg = None"
    by (simp only: target_labels_coerce_types_None)
  then show ?thesis
    by (simp add: train_and_predict_def no_missing_iff build_pipeline_def pre_transform_def
        Let_def)
qed

lemma train_and_predict_fitted:
  assumes "fitted_run fit df cfg m"
  shows "train_and_predict fit has_shap shap df cfg =
     Inr \<lparr>customer_id = map (\<lambda>r. r (customer_id_col cfg)) (rows df),
          predicted_churn_90d = run_pred df cfg m,
          predicted_churn_probability_90d = predict_proba1 m (feature_matrix df cfg),
          predicted_churn_reason_90d =
            predicted_reasons (run_env has_shap shap df cfg m) (run_pred df cfg m)
              (length (rows df)),
          actual_churned_90d = target_labels df cfg,
          actual_churn_reason_90d =
            map_option (\<lambda>a. actual_reasons (run_env has_shap shap df cfg m) a (length (rows df)))
              (target_labels df cfg)\<rparr>"
proof -
  from assms obtain ys where
    "target_labels (coerce_types df (feature_cols cfg)) cfg = Some ys"
    "fit (feature_matrix df cfg) ys = Inr m"
    by (auto simp: fitted_run_def split: option.splits)
  with assms show ?thesis
    by (simp add: fitted_run_def train_and_predict_def no_missing_iff build_pipeline_def
        pre_transform_def run_env_def run_pred_def Let_def)
qed

text \<open>Every call that returns a result is such a run.\<close>

lemma train_and_predict_Inr_fitted:
  assumes "train_and_predict fit has_shap shap df cfg = Inr res"
  shows "\<exists>m. fitted_run fit df cfg m"
proof (cases "target_labels (coerce_types df (feature_cols cfg)) cfg")
  case None
  then have "target_labels df cfg = None"
    by (simp only: target_labels_coerce_types_None)
  with assms show ?thesis
    by (simp add: train_and_predict_unlabelled split: if_splits)
next
  case (Some ys)
  with assms obtain m where "fit (feature_matrix df cfg) ys = Inr m"
    by (cases "fit (feature_matrix df cfg) ys")
       (auto simp: train_and_predict_def Let_def split: if_splits)
  with assms Some show ?thesis
    by (auto simp: train_and_predict_def fitted_run_def no_missing_iff Let_def
        split: if_splits)
qed

subsection \<open>The loop over the rows\<close>

lemma length_reasons_loop [simp]: "length (reasons_loop body todo rs) = length rs"
  by (induction todo arbitrary: rs) (auto split: sum.splits)

text \<open>Once the body raises at \<open>i\<close>, only rows that come before \<open>i\<close> in the order of the
  loop can have been written.\<close>

lemma reasons_loop_stops:
  assumes "body i = Inl e" and "j \<notin> set before"
  shows "reasons_loop body (before @ i # rest) rs ! j = rs ! j"
  using assms
proof (induction before arbitrary: rs)
  case Nil
  then show ?case by simp
next
  case (Cons k before)
  then have "j \<noteq> k" by auto
  with Cons show ?case by (cases "body k") simp_all
qed

lemma reasons_loop_untouched:
  "j \<notin> set todo \<Longrightarrow> reasons_loop body todo rs ! j = rs ! j"
  by (induction todo arbitrary: rs) (auto split: sum.splits)

text \<open>Whatever the loop does, an entry of the list is as it was at the start or is the
  reason that the body computes for its row.\<close>

lemma reasons_loop_either:
  "reasons_loop body todo rs ! i = rs ! i
   \<or> (\<exists>r. body i = Inr r \<and> reasons_loop body todo rs ! i = r)"
proof (induction todo arbitrary: rs)
  case Nil
  then show ?case by simp
next
  case (Cons k todo)
  show ?case
  proof (cases "body k")
    case (Inl e)
    then show ?thesis by simp
  next
    case (Inr rk)
    from Cons.IH [of "rs[k := rk]"] consider
      "reasons_loop body todo (rs[k := rk]) ! i = rs[k := rk] ! i"
      | r where "body i = Inr r" "reasons_loop body todo (rs[k := rk]) ! i = r"
      by blast
    then show ?thesis
    proof cases
      case 1
      show ?thesis
      proof (cases "i = k \<and> i < length rs")
        case True
        with 1 Inr show ?thesis by simp
      next
        case False
        then have "rs[k := rk] ! i = rs ! i"
          by (cases "i = k") (simp_all add: list_update_beyond)
        with 1 Inr show ?thesis by simp
      qed
    next
      case 2
      with Inr show ?thesis by simp
    qed
  qed
qed

lemma predicted_reasons_either:
  assumes "i < n"
  shows "predicted_reasons E pred n ! i = []
   \<or> (\<exists>r. explain_row E pred i = Inr r \<and> predicted_reasons E pred n ! i = r)"
  using reasons_loop_either [of "explain_row E pred" "[0..<n]" "replicate n []" i] assms
  by (simp add: predicted_reasons_def)

lemma reasons_loop_reaches:
  assumes "\<forall>k \<in> set before. \<exists>r. body k = Inr r" and "body j = Inr r"
    and "j \<notin> set rest" and "j < length rs"
  shows "reasons_loop body (before @ j # rest) rs ! j = r"
  using assms
proof (induction before arbitrary: rs)
  case Nil
  then show ?case by (simp add: reasons_loop_untouched)
next
  case (Cons k before)
  then obtain rk where "body k = Inr rk" by auto
  with Cons show ?case by simp
qed

lemma upt_split: "i < n \<Longrightarrow> [0..<n] = [0..<i] @ i # [Suc i..<n]"
proof -
  assume "i < n"
  then have "[0..<n] = [0..<i] @ [i..<n]"
    using upt_add_eq_append [of 0 i "n - i"] by simp
  with \<open>i < n\<close> show ?thesis by (simp add: upt_conv_Cons)
qed

lemma predicted_reasons_blank:
  assumes "i < n" and "explain_row E pred i = Inl e"
  shows "predicted_reasons E pred n ! i = []"
proof -
  have "reasons_loop (explain_row E pred) ([0..<i] @ i # [Suc i..<n]) (replicate n []) ! i
      = replicate n [] ! i"
    using assms(2) by (rule reasons_loop_stops) simp
  with assms(1) show ?thesis
    by (simp add: predicted_reasons_def upt_split [symmetric])
qed

lemma predicted_reasons_reached:
  assumes "i < n" and "\<forall>j\<le>i. \<exists>r. explain_row E pred j = Inr r"
    and "explain_row E pred i = Inr r"
  shows "predicted_reasons E pred n ! i = r"
proof -
  have "reasons_loop (explain_row E pred) ([0..<i] @ i # [Suc i..<n]) (replicate n []) ! i = r"
    using assms by (intro reasons_loop_reaches) auto
  with assms(1) show ?thesis
    by (simp add: predicted_reasons_def upt_split [symmetric])
qed

subsection \<open>The loop over the features\<close>

lemma tagged_loop_phrases:
  "map_sum id (map snd) (tagged_loop E i p contrib order sel) =
     phrase_loop E i p contrib order (map snd sel)"
  by (induction order arbitrary: sel) (auto split: sum.splits bool.splits)

lemma tagged_loop_invariant:
  assumes "tagged_loop E i True contrib order sel = Inr out"
    and "length contrib = length (e_cols E)"
    and "length sel \<le> 3" and "list_all (qualifies E i contrib) sel"
  shows "length out \<le> 3 \<and> list_all (qualifies E i contrib) out"
  using assms
proof (induction order arbitrary: sel)
  case Nil
  then show ?case by simp
next
  case (Cons idx order)
  show ?case
  proof (cases "3 \<le> length sel")
    case True
    with Cons.prems show ?thesis by simp
  next
    case False
    note short = this
    show ?thesis
    proof (cases "idx < length contrib")
      case False
      with short Cons.prems(1) show ?thesis by (simp add: nth_err_def)
    next
      case True
      note inrange = this
      show ?thesis
      proof (cases "contrib ! idx \<le> 0")
        case True
        with short inrange Cons.prems have "tagged_loop E i True contrib order sel = Inr out"
          by (simp add: nth_err_def)
        with Cons.IH Cons.prems show ?thesis by blast
      next
        case False
        with short inrange Cons.prems(1) obtain phrase where
          r: "render E i idx = Inr phrase" and
          t: "tagged_loop E i True contrib order
                (if phrase \<noteq> [] then sel @ [(idx, phrase)] else sel) = Inr out"
          by (auto simp: nth_err_def split: sum.splits)
        let ?sel' = "if phrase \<noteq> [] then sel @ [(idx, phrase)] else sel"
        from short have len: "length ?sel' \<le> 3" by simp
        have "qualifies E i contrib (idx, phrase)" if "phrase \<noteq> []"
          using that r inrange False Cons.prems(2)
          by (simp add: qualifies_def feature_contribution_def)
        with Cons.prems(4) have "list_all (qualifies E i contrib) ?sel'" by simp
        with len show ?thesis using Cons.IH [OF t Cons.prems(2)] by blast
      qed
    qed
  qed
qed

lemma tagged_loop_none_positive:
  assumes "\<forall>idx \<in> set order. idx < length contrib" and "\<forall>c \<in> set contrib. c \<le> 0"
  shows "tagged_loop E i True contrib order sel = Inr sel"
  using assms by (induction order) (auto simp: nth_err_def)

lemma set_argsort: "set (argsort xs) = {..<length xs}"
proof -
  have "map snd (zip xs [0..<length xs]) = [0..<length xs]"
    by (rule map_snd_zip) simp
  then have b: "set (map snd (zip xs [0..<length xs])) = set [0..<length xs]"
    by (rule arg_cong)
  have "set (argsort xs) = set (map snd (sort_key fst (zip xs [0..<length xs])))"
    by (simp only: argsort_def)
  also have "\<dots> = set (map snd (zip xs [0..<length xs]))"
    by (simp only: set_map set_sort)
  also note b
  also have "set [0..<length xs] = {..<length xs}"
    by (simp add: atLeast0LessThan)
  finally show ?thesis .
qed

lemma explain_row_churn:
  assumes "contribution E i = Inr contrib" and "i < length pred" and "pred ! i = 1"
  shows "explain_row E pred i =
     (case tagged_loop E i True contrib (rev (argsort contrib)) [] of
        Inl e \<Rightarrow> Inl e
      | Inr sel \<Rightarrow> Inr (if sel = [] then generic_reason else join ''; '' (map snd sel)))"
proof -
  have "phrase_loop E i True contrib (rev (argsort contrib)) [] =
      map_sum id (map snd) (tagged_loop E i True contrib (rev (argsort contrib)) [])"
    by (simp add: tagged_loop_phrases)
  with assms show ?thesis
    by (auto simp: explain_row_def nth_err_def split: sum.splits)
qed

lemma length_run_pred: "fitted_run fit df cfg m \<Longrightarrow> length (run_pred df cfg m) = length (rows df)"
  by (simp add: fitted_run_def run_pred_def predict_labels_def)

subsection \<open>The example frames, evaluated\<close>

lemmas describe_defs = describe_def friendly_label_def label_mapping_def risk_direction_def
  high_risk_def low_risk_def neg_risk_def format_value_def signal_cols_def py_round_def
  str_int_def str_nat.simps digit_char_def strip_def is_space_def float_bool_def

lemmas render_defs = render_def nth_err_def z_value_def mk_row_def

lemmas contribution_defs = contribution_def clf_coef_def nth_err_def np_mul_def

lemma fitted_run_text: "fitted_run fit_text frame_text cfg2 fitted_text"
  by (simp add: fitted_run_def fit_text_def frame_text_def cfg2_def target_labels_def coerce_types_def
      fitted_text_def)

lemma pred_text: "pred_text = [0, 1, 0, 1]"
  by (simp add: pred_text_def run_pred_def predict_labels_def fitted_text_def)

lemma env_text:
  "env_text = \<lparr>e_df = frame_text, e_cols = [''recency_days'', ''lateness_component''],
     e_pipe = Some fitted_text, e_Xt = [[1, 0], [- 1, 0], [1, 0], [- 1, 0]], e_phi = None\<rparr>"
  by (simp add: env_text_def run_env_def explanation_env_def cfg2_def shap_contributions_def
      fitted_text_def)

lemma contribution_text_0: "contribution env_text 0 = Inr [- 104 / 100, 0]"
  by (simp add: env_text contribution_defs fitted_text_def)

lemma contribution_text_1: "contribution env_text (Suc 0) = Inr [104 / 100, 0]"
  by (simp add: env_text contribution_defs fitted_text_def)

lemma render_text_0_0: "render env_text 0 0 = Inr ''No purchases for 30 days''"
  by (simp add: env_text render_defs frame_text_def describe_defs)

lemma render_text_0_1: "render env_text 0 (Suc 0) = Inl ValueError"
  by (simp add: env_text render_defs frame_text_def)

lemma render_text_1_0: "render env_text (Suc 0) 0 = Inr []"
  by (simp add: env_text render_defs frame_text_def describe_defs)

lemma explain_row_text_0: "explain_row env_text pred_text 0 = Inl ValueError"
  by (simp add: explain_row_def contribution_text_0 pred_text nth_err_def argsort_def
      render_text_0_0 render_text_0_1)

lemma explain_row_text_1: "explain_row env_text pred_text (Suc 0) = Inr generic_reason"
  by (simp add: explain_row_def contribution_text_1 pred_text nth_err_def argsort_def
      render_text_1_0)

lemma reasons_text: "predicted_reasons env_text pred_text 4 = [[], [], [], []]"
  by (simp add: predicted_reasons_def upt_rec explain_row_text_0 numeral_eq_Suc)

lemma train_and_predict_text:
  "map_sum id predicted_churn_reason_90d
     (train_and_predict fit_text False no_shap frame_text cfg2) = Inr [[], [], [], []]"
proof -
  have "length (rows frame_text) = 4"
    by (simp add: frame_text_def)
  then show ?thesis
    using train_and_predict_fitted [OF fitted_run_text, of False no_shap] reasons_text
    by (simp add: env_text_def [symmetric] pred_text_def [symmetric])
qed

lemma fitted_run_clean: "fitted_run fit_clean frame_clean cfg2 fitted_clean"
  by (simp add: fitted_run_def fit_clean_def frame_clean_def cfg2_def target_labels_def coerce_types_def
      fitted_clean_def)

lemma pred_clean: "pred_clean = [0, 1, 0, 1]"
  by (simp add: pred_clean_def run_pred_def predict_labels_def fitted_clean_def)

lemma env_clean:
  "env_clean = \<lparr>e_df = frame_clean, e_cols = [''recency_days'', ''lateness_component''],
     e_pipe = Some fitted_clean, e_Xt = [[- 1, 0], [1, 0], [- 1, 0], [1, 0]], e_phi = None\<rparr>"
  by (simp add: env_clean_def run_env_def explanation_env_def cfg2_def shap_contributions_def
      fitted_clean_def)

lemma contribution_clean_0: "contribution env_clean 0 = Inr [- 104 / 100, 0]"
  by (simp add: env_clean contribution_defs fitted_clean_def)

lemma contribution_clean_1: "contribution env_clean (Suc 0) = Inr [104 / 100, 0]"
  by (simp add: env_clean contribution_defs fitted_clean_def)

lemma render_clean_0_0: "render env_clean 0 0 = Inr []"
  by (simp add: env_clean render_defs frame_clean_def describe_defs)

lemma render_clean_0_1: "render env_clean 0 (Suc 0) = Inr []"
  by (simp add: env_clean render_defs frame_clean_def describe_defs)

lemma render_clean_1_0: "render env_clean (Suc 0) 0 = Inr ''No purchases for 30 days''"
  by (simp add: env_clean render_defs frame_clean_def describe_defs)

lemma explain_row_clean_0: "explain_row env_clean pred_clean 0 = Inr generic_reason"
  by (simp add: explain_row_def contribution_clean_0 pred_clean nth_err_def argsort_def
      render_clean_0_0 render_clean_0_1)

lemma explain_row_clean_1:
  "explain_row env_clean pred_clean (Suc 0) = Inr ''No purchases for 30 days''"
  by (simp add: explain_row_def contribution_clean_1 pred_clean nth_err_def argsort_def
      render_clean_1_0)

lemma tagged_clean_1:
  "tagged_loop env_clean (Suc 0) True [104 / 100, 0] (rev (argsort [104 / 100, 0])) [] =
     Inr [(0, ''No purchases for 30 days'')]"
  by (simp add: nth_err_def argsort_def render_clean_1_0)

lemma fitted_run_const: "fitted_run fit_const frame_const cfg2 fitted_const"
  by (simp add: fitted_run_def fit_const_def frame_const_def cfg2_def target_labels_def coerce_types_def
      fitted_const_def)

lemma pred_const: "pred_const = [1, 1]"
  by (simp add: pred_const_def run_pred_def predict_labels_def fitted_const_def)

lemma env_const:
  "env_const = \<lparr>e_df = frame_const, e_cols = [''recency_days'', ''lateness_component''],
     e_pipe = Some fitted_const, e_Xt = [[0, 0], [0, 0]], e_phi = None\<rparr>"
  by (simp add: env_const_def run_env_def explanation_env_def cfg2_def shap_contributions_def
      fitted_const_def)

lemma contribution_const_0: "contribution env_const 0 = Inr [0, 0]"
  by (simp add: env_const contribution_defs fitted_const_def)

lemma explain_row_const_0: "explain_row env_const pred_const 0 = Inr generic_reason"
  by (simp add: explain_row_def contribution_const_0 pred_const nth_err_def argsort_def)

lemma fitted_run_dropped: "fitted_run fit_dropped frame_dropped cfg2 fitted_dropped"
  by (simp add: fitted_run_def fit_dropped_def frame_dropped_def cfg2_def target_labels_def
      coerce_types_def fitted_dropped_def)

lemma pred_dropped: "pred_dropped = [0, 1, 0, 1]"
  by (simp add: pred_dropped_def run_pred_def predict_labels_def fitted_dropped_def)

lemma env_dropped:
  "env_dropped = \<lparr>e_df = frame_dropped, e_cols = [''recency_days'', ''lateness_component''],
     e_pipe = Some fitted_dropped, e_Xt = [[- 1], [1], [- 1], [1]], e_phi = None\<rparr>"
  by (simp add: env_dropped_def run_env_def explanation_env_def cfg2_def shap_contributions_def
      fitted_dropped_def)

lemma contribution_dropped_0: "contribution env_dropped 0 = Inr [- 104 / 100]"
  by (simp add: env_dropped contribution_defs fitted_dropped_def)

lemma contribution_dropped_1: "contribution env_dropped (Suc 0) = Inr [104 / 100]"
  by (simp add: env_dropped contribution_defs fitted_dropped_def)

lemma render_dropped_0_0: "render env_dropped 0 0 = Inr []"
  by (simp add: env_dropped render_defs frame_dropped_def describe_defs)

lemma render_dropped_1_0: "render env_dropped (Suc 0) 0 = Inr ''No purchases for''"
  by (simp add: env_dropped render_defs frame_dropped_def describe_defs)

lemma explain_row_dropped_0: "explain_row env_dropped pred_dropped 0 = Inr generic_reason"
  by (simp add: explain_row_def contribution_dropped_0 pred_dropped nth_err_def argsort_def
      render_dropped_0_0)

lemma explain_row_dropped_1:
  "explain_row env_dropped pred_dropped (Suc 0) = Inr ''No purchases for''"
  by (simp add: explain_row_def contribution_dropped_1 pred_dropped nth_err_def argsort_def
      render_dropped_1_0)

lemma tagged_dropped_1:
  "tagged_loop env_dropped (Suc 0) True [104 / 100] (rev (argsort [104 / 100])) [] =
     Inr [(0, ''No purchases for'')]"
  by (simp add: nth_err_def argsort_def render_dropped_1_0)

lemma reason_dropped_1:
  "map_sum id (\<lambda>res. predicted_churn_reason_90d res ! 1)
     (train_and_predict fit_dropped False no_shap frame_dropped cfg2) = Inr ''No purchases for''"
proof -
  have n: "Suc 0 < length (rows frame_dropped)"
    by (simp add: frame_dropped_def)
  have "\<forall>j\<le>Suc 0. \<exists>r. explain_row env_dropped pred_dropped j = Inr r"
  proof (intro allI impI)
    fix j :: nat
    assume "j \<le> Suc 0"
    then have "j = 0 \<or> j = Suc 0" by auto
    with explain_row_dropped_0 explain_row_dropped_1
    show "\<exists>r. explain_row env_dropped pred_dropped j = Inr r" by auto
  qed
  with n have "predicted_reasons env_dropped pred_dropped (length (rows frame_dropped)) ! Suc 0
      = ''No purchases for''"
    using explain_row_dropped_1 by (rule predicted_reasons_reached)
  then show ?thesis
    using train_and_predict_fitted [OF fitted_run_dropped, of False no_shap]
    by (simp add: env_dropped_def [symmetric] pred_dropped_def [symmetric])
qed

lemma not_qualifies_dropped:
  "\<not> qualifies env_dropped (Suc 0) [104 / 100] (0, ''No purchases for'')"
  by (simp add: qualifies_def feature_contribution_def env_dropped)

subsection \<open>The claims\<close>

text \<open>
  C1 asks that a frame without a label column yields probability 0.0 and label 0 for every
  row. The source prepares these zeros, but a pipeline that was never fitted is then asked
  to transform the matrix, and the library raises \<^verbatim>\<open>NotFittedError\<close> outside every \<^verbatim>\<open>try\<close>:
  on the frame \<open>frame_unlabelled\<close>, which has all features and the customer column and no
  label column, the function does not return a result.
\<close>

theorem train_and_predict_unlabelled_raises:
  "target_labels frame_unlabelled cfg2 = None
   \<and> train_and_predict fit has_shap shap frame_unlabelled cfg2 = Inl NotFittedError"
proof -
  have a: "target_labels frame_unlabelled cfg2 = None"
    by (simp add: target_labels_def frame_unlabelled_def cfg2_def)
  then have "train_and_predict fit has_shap shap frame_unlabelled cfg2 = Inl NotFittedError"
    by (simp add: train_and_predict_unlabelled frame_unlabelled_def cfg2_def)
  with a show ?thesis by (rule conjI)
qed

text \<open>
  C2 as stated fails: on \<open>frame_text\<close> the explanation of the first record raises
  \<^verbatim>\<open>ValueError\<close> (the text "n/a" reaches \<^verbatim>\<open>float\<close>), the function returns, and the reason of
  that record is the empty string, not the generic phrase.
\<close>

theorem explanation_error_counterexample:
  "explain_row (run_env False no_shap frame_text cfg2 fitted_text)
       (run_pred frame_text cfg2 fitted_text) 0 = Inl ValueError
   \<and> map_sum id (\<lambda>res. predicted_churn_reason_90d res ! 0)
       (train_and_predict fit_text False no_shap frame_text cfg2) = Inr []
   \<and> [] \<noteq> generic_reason"
proof -
  have a: "explain_row (run_env False no_shap frame_text cfg2 fitted_text)
       (run_pred frame_text cfg2 fitted_text) 0 = Inl ValueError"
    using explain_row_text_0 by (simp only: env_text_def pred_text_def)
  have b: "map_sum id (\<lambda>res. predicted_churn_reason_90d res ! 0)
       (train_and_predict fit_text False no_shap frame_text cfg2) = Inr []"
    using train_and_predict_text
    by (cases "train_and_predict fit_text False no_shap frame_text cfg2") auto
  have c: "[] \<noteq> generic_reason"
    by (simp add: generic_reason_def)
  from a b c show ?thesis by (intro conjI)
qed

text \<open>
  C2, amended. In a run that reaches the explanation, an exception raised while the
  contribution of a row is computed or a phrase is rendered does not leave
  \<open>train_and_predict\<close>: the function returns its result, with one reason per row, and the
  reason of that row is the empty string.
\<close>

theorem explanation_error_is_absorbed:
  assumes run: "fitted_run fit df cfg m"
    and i: "i < length (rows df)"
    and err: "explain_row (run_env has_shap shap df cfg m) (run_pred df cfg m) i = Inl e"
  shows "\<exists>res. train_and_predict fit has_shap shap df cfg = Inr res
      \<and> length (predicted_churn_reason_90d res) = length (rows df)
      \<and> predicted_churn_reason_90d res ! i = []"
proof -
  let ?rs = "predicted_reasons (run_env has_shap shap df cfg m) (run_pred df cfg m)
      (length (rows df))"
  have "length ?rs = length (rows df)"
    by (simp add: predicted_reasons_def)
  moreover have "?rs ! i = []"
    using i err by (rule predicted_reasons_blank)
  ultimately show ?thesis
    by (simp add: train_and_predict_fitted [OF run])
qed

theorem explanation_error_is_absorbed_witness:
  "fitted_run fit_text frame_text cfg2 fitted_text
   \<and> 0 < length (rows frame_text)
   \<and> explain_row (run_env False no_shap frame_text cfg2 fitted_text)
       (run_pred frame_text cfg2 fitted_text) 0 = Inl ValueError
   \<and> (\<exists>res. train_and_predict fit_text False no_shap frame_text cfg2 = Inr res
      \<and> length (predicted_churn_reason_90d res) = length (rows frame_text)
      \<and> predicted_churn_reason_90d res ! 0 = [])"
proof -
  have i: "0 < length (rows frame_text)"
    by (simp add: frame_text_def)
  have err: "explain_row (run_env False no_shap frame_text cfg2 fitted_text)
       (run_pred frame_text cfg2 fitted_text) 0 = Inl ValueError"
    using explain_row_text_0 by (simp only: env_text_def pred_text_def)
  from fitted_run_text i err explanation_error_is_absorbed [OF fitted_run_text i err]
  show ?thesis by (intro conjI)
qed

text \<open>
  C3 as stated fails, in two ways.

  \<^item> On \<open>frame_text\<close> the second record is predicted as churn and no feature qualifies for
    it (its own loop would give the generic phrase: the only positive contribution belongs
    to a feature whose phrase is empty). But the loop over the rows has ended at the first
    record, so the reason of the second record is the empty string.

  \<^item> On \<open>frame_dropped\<close> the imputer has dropped the column \<^verbatim>\<open>recency_days\<close>, so the
    contribution vector of the second record has the one entry of \<^verbatim>\<open>lateness_component\<close>,
    which is positive. The loop reads the name at the same position of the configured
    features and the reason is the phrase of \<^verbatim>\<open>recency_days\<close>, a feature that has no
    contribution at all.
\<close>

theorem churn_row_reasons_counterexample:
  "run_pred frame_text cfg2 fitted_text ! 1 = 1
   \<and> tagged_loop (run_env False no_shap frame_text cfg2 fitted_text) 1 True [104 / 100, 0]
        (rev (argsort [104 / 100, 0])) [] = Inr []
   \<and> explain_row (run_env False no_shap frame_text cfg2 fitted_text)
        (run_pred frame_text cfg2 fitted_text) 1 = Inr generic_reason
   \<and> map_sum id (\<lambda>res. predicted_churn_reason_90d res ! 1)
        (train_and_predict fit_text False no_shap frame_text cfg2) = Inr []
   \<and> [] \<noteq> generic_reason
   \<and> run_pred frame_dropped cfg2 fitted_dropped ! 1 = 1
   \<and> contribution (run_env False no_shap frame_dropped cfg2 fitted_dropped) 1 = Inr [104 / 100]
   \<and> map_sum id (\<lambda>res. predicted_churn_reason_90d res ! 1)
        (train_and_predict fit_dropped False no_shap frame_dropped cfg2) = Inr ''No purchases for''
   \<and> feature_cols cfg2 ! 0 = ''recency_days''
   \<and> feature_contribution (feature_cols cfg2) [104 / 100] 0 = None"
proof -
  have a: "run_pred frame_text cfg2 fitted_text ! 1 = 1"
    using pred_text by (simp add: pred_text_def)
  have b: "tagged_loop (run_env False no_shap frame_text cfg2 fitted_text) 1 True [104 / 100, 0]
        (rev (argsort [104 / 100, 0])) [] = Inr []"
    using render_text_1_0 by (simp add: env_text_def nth_err_def argsort_def)
  have c: "explain_row (run_env False no_shap frame_text cfg2 fitted_text)
        (run_pred frame_text cfg2 fitted_text) 1 = Inr generic_reason"
    using explain_row_text_1 by (simp add: env_text_def pred_text_def)
  have d: "map_sum id (\<lambda>res. predicted_churn_reason_90d res ! 1)
        (train_and_predict fit_text False no_shap frame_text cfg2) = Inr []"
    using train_and_predict_text
    by (cases "train_and_predict fit_text False no_shap frame_text cfg2") auto
  have e: "[] \<noteq> generic_reason"
    by (simp add: generic_reason_def)
  have f: "run_pred frame_dropped cfg2 fitted_dropped ! 1 = 1"
    using pred_dropped by (simp add: pred_dropped_def)
  have g: "contribution (run_env False no_shap frame_dropped cfg2 fitted_dropped) 1
      = Inr [104 / 100]"
    using contribution_dropped_1 by (simp add: env_dropped_def)
  have h: "map_sum id (\<lambda>res. predicted_churn_reason_90d res ! 1)
        (train_and_predict fit_dropped False no_shap frame_dropped cfg2) = Inr ''No purchases for''"
    by (rule reason_dropped_1)
  have k: "feature_cols cfg2 ! 0 = ''recency_days''"
    by (simp add: cfg2_def)
  have l: "feature_contribution (feature_cols cfg2) [104 / 100] 0 = None"
    by (simp add: feature_contribution_def cfg2_def)
  from a b c d e f g h k l show ?thesis by (intro conjI)
qed

text \<open>
  C3, amended. Take a run that reaches the explanation and a row \<open>i\<close> with predicted
  label 1 whose contribution vector \<open>contrib\<close> has one entry per configured feature (no
  feature column was dropped by the imputer). Then there is a list \<open>sel\<close> of at most 3
  tagged phrases, each of them rendered for a feature whose contribution is strictly
  positive, such that the reason of the row is empty or is built from \<open>sel\<close>: the phrases
  joined by "; ", or the generic phrase when the list is empty. If moreover no exception
  is raised in the explanation of the rows up to and including \<open>i\<close>, the reason is built
  from \<open>sel\<close>, which is what the loop over the features selects; and then, when all
  contributions are at most 0, the reason is the generic phrase.
\<close>

theorem churn_row_reasons:
  assumes run: "fitted_run fit df cfg m"
    and E: "E = run_env has_shap shap df cfg m"
    and pred: "pred = run_pred df cfg m"
    and i: "i < length (rows df)"
    and churn: "pred ! i = 1"
    and contrib: "contribution E i = Inr contrib"
    and aligned: "length contrib = length (feature_cols cfg)"
  shows "\<exists>res sel. train_and_predict fit has_shap shap df cfg = Inr res
      \<and> length sel \<le> 3
      \<and> list_all (qualifies E i contrib) sel
      \<and> (predicted_churn_reason_90d res ! i = []
          \<or> predicted_churn_reason_90d res ! i =
              (if sel = [] then generic_reason else join ''; '' (map snd sel)))
      \<and> ((\<forall>j\<le>i. \<exists>r. explain_row E pred j = Inr r) \<longrightarrow>
            tagged_loop E i True contrib (rev (argsort contrib)) [] = Inr sel
            \<and> predicted_churn_reason_90d res ! i =
                (if sel = [] then generic_reason else join ''; '' (map snd sel))
            \<and> ((\<forall>c \<in> set contrib. c \<le> 0) \<longrightarrow>
                  predicted_churn_reason_90d res ! i = generic_reason))"
proof -
  let ?order = "rev (argsort contrib)"
  let ?res = "\<lparr>customer_id = map (\<lambda>r. r (customer_id_col cfg)) (rows df),
          predicted_churn_90d = run_pred df cfg m,
          predicted_churn_probability_90d = predict_proba1 m (feature_matrix df cfg),
          predicted_churn_reason_90d =
            predicted_reasons (run_env has_shap shap df cfg m) (run_pred df cfg m)
              (length (rows df)),
          actual_churned_90d = target_labels df cfg,
          actual_churn_reason_90d =
            map_option (\<lambda>a. actual_reasons (run_env has_shap shap df cfg m) a (length (rows df)))
              (target_labels df cfg)\<rparr>"
  let ?reason = "predicted_reasons E pred (length (rows df)) ! i"
  let ?built = "\<lambda>sel. if sel = [] then generic_reason else join ''; '' (map snd sel)"
  have res: "train_and_predict fit has_shap shap df cfg = Inr ?res"
    by (rule train_and_predict_fitted [OF run])
  have col: "predicted_churn_reason_90d ?res ! i = ?reason"
    using E pred by simp
  have cols: "e_cols E = feature_cols cfg"
    by (simp add: E run_env_def explanation_env_def)
  have len: "i < length pred"
    using i length_run_pred [OF run] pred by simp
  have row: "explain_row E pred i =
     (case tagged_loop E i True contrib ?order [] of
        Inl e \<Rightarrow> Inl e
      | Inr sel \<Rightarrow> Inr (?built sel))"
    using contrib len churn by (rule explain_row_churn)
  show ?thesis
  proof (cases "tagged_loop E i True contrib ?order []")
    case (Inl e)
    with row have fail: "explain_row E pred i = Inl e"
      by simp
    then have "?reason = []"
      using i by (intro predicted_reasons_blank)
    then have blank: "predicted_churn_reason_90d ?res ! i = []"
      using col by simp
    from fail have stopped: "\<not> (\<forall>j\<le>i. \<exists>r. explain_row E pred j = Inr r)"
      by auto
    have l0: "length ([] :: (nat \<times> string) list) \<le> 3"
      by simp
    have q0: "list_all (qualifies E i contrib) []"
      by simp
    have "train_and_predict fit has_shap shap df cfg = Inr ?res
      \<and> length ([] :: (nat \<times> string) list) \<le> 3
      \<and> list_all (qualifies E i contrib) []
      \<and> (predicted_churn_reason_90d ?res ! i = []
          \<or> predicted_churn_reason_90d ?res ! i = ?built [])
      \<and> ((\<forall>j\<le>i. \<exists>r. explain_row E pred j = Inr r) \<longrightarrow>
            tagged_loop E i True contrib ?order [] = Inr []
            \<and> predicted_churn_reason_90d ?res ! i = ?built []
            \<and> ((\<forall>c \<in> set contrib. c \<le> 0) \<longrightarrow>
                  predicted_churn_reason_90d ?res ! i = generic_reason))"
      using res blank stopped l0 q0 by blast
    then show ?thesis by blast
  next
    case (Inr sel)
    with row have ok: "explain_row E pred i = Inr (?built sel)"
      by simp
    have inv: "length sel \<le> 3 \<and> list_all (qualifies E i contrib) sel"
      using Inr aligned cols by (intro tagged_loop_invariant [of E i contrib ?order "[]"]) simp_all
    have "?reason = [] \<or> ?reason = ?built sel"
      using predicted_reasons_either [OF i, of E pred] ok by auto
    then have either: "predicted_churn_reason_90d ?res ! i = []
        \<or> predicted_churn_reason_90d ?res ! i = ?built sel"
      using col by simp
    have "?reason = ?built sel" if "\<forall>j\<le>i. \<exists>r. explain_row E pred j = Inr r"
      using i that ok by (rule predicted_reasons_reached)
    then have reached: "predicted_churn_reason_90d ?res ! i = ?built sel"
      if "\<forall>j\<le>i. \<exists>r. explain_row E pred j = Inr r"
      using that col by simp
    have none: "sel = []" if "\<forall>c \<in> set contrib. c \<le> 0"
    proof -
      have "\<forall>idx \<in> set ?order. idx < length contrib"
        by (simp add: set_argsort)
      then have "tagged_loop E i True contrib ?order [] = Inr []"
        using that by (rule tagged_loop_none_positive)
      with Inr show ?thesis by simp
    qed
    have "train_and_predict fit has_shap shap df cfg = Inr ?res
      \<and> length sel \<le> 3
      \<and> list_all (qualifies E i contrib) sel
      \<and> (predicted_churn_reason_90d ?res ! i = []
          \<or> predicted_churn_reason_90d ?res ! i = ?built sel)
      \<and> ((\<forall>j\<le>i. \<exists>r. explain_row E pred j = Inr r) \<longrightarrow>
            tagged_loop E i True contrib ?order [] = Inr sel
            \<and> predicted_churn_reason_90d ?res ! i = ?built sel
            \<and> ((\<forall>c \<in> set contrib. c \<le> 0) \<longrightarrow>
                  predicted_churn_reason_90d ?res ! i = generic_reason))"
    proof (intro conjI impI)
      show "train_and_predict fit has_shap shap df cfg = Inr ?res"
        by (rule res)
      show "length sel \<le> 3" and "list_all (qualifies E i contrib) sel"
        using inv by simp_all
      show "predicted_churn_reason_90d ?res ! i = []
          \<or> predicted_churn_reason_90d ?res ! i = ?built sel"
        by (rule either)
      show "tagged_loop E i True contrib ?order [] = Inr sel"
        by (rule Inr)
      show "predicted_churn_reason_90d ?res ! i = ?built sel"
        if "\<forall>j\<le>i. \<exists>r. explain_row E pred j = Inr r"
        using that by (rule reached)
      show "predicted_churn_reason_90d ?res ! i = generic_reason"
        if "\<forall>j\<le>i. \<exists>r. explain_row E pred j = Inr r" and "\<forall>c \<in> set contrib. c \<le> 0"
        using reached [OF that(1)] none [OF that(2)] by simp
    qed
    then show ?thesis by blast
  qed
qed

text \<open>
  Two instances. On \<open>frame_clean\<close> the second record is predicted as churn and its reason
  is the phrase of its one risk driver. On \<open>frame_const\<close> the first record is predicted as
  churn with all contributions zero, and its reason is the generic phrase.
\<close>

theorem churn_row_reasons_witness:
  "fitted_run fit_clean frame_clean cfg2 fitted_clean
   \<and> pred_clean ! 1 = 1
   \<and> explain_row env_clean pred_clean 0 = Inr generic_reason
   \<and> explain_row env_clean pred_clean 1 = Inr ''No purchases for 30 days''
   \<and> contribution env_clean 1 = Inr [104 / 100, 0]
   \<and> length [104 / 100, 0 :: real] = length (feature_cols cfg2)
   \<and> qualifies env_clean 1 [104 / 100, 0] (0, ''No purchases for 30 days'')
   \<and> map_sum id (\<lambda>res. predicted_churn_reason_90d res ! 1)
        (train_and_predict fit_clean False no_shap frame_clean cfg2)
        = Inr ''No purchases for 30 days''
   \<and> fitted_run fit_const frame_const cfg2 fitted_const
   \<and> pred_const ! 0 = 1
   \<and> contribution env_const 0 = Inr [0, 0]
   \<and> length [0, 0 :: real] = length (feature_cols cfg2)
   \<and> map_sum id (\<lambda>res. predicted_churn_reason_90d res ! 0)
        (train_and_predict fit_const False no_shap frame_const cfg2) = Inr generic_reason"
proof -
  have p1: "pred_clean ! 1 = 1"
    by (simp add: pred_clean)
  have r0: "explain_row env_clean pred_clean 0 = Inr generic_reason"
    by (rule explain_row_clean_0)
  have r1: "explain_row env_clean pred_clean 1 = Inr ''No purchases for 30 days''"
    using explain_row_clean_1 by simp
  have c1: "contribution env_clean 1 = Inr [104 / 100, 0]"
    using contribution_clean_1 by simp
  have a1: "length [104 / 100, 0 :: real] = length (feature_cols cfg2)"
    by (simp add: cfg2_def)
  have i1: "1 < length (rows frame_clean)"
    by (simp add: frame_clean_def)
  have reached1: "\<forall>j\<le>1. \<exists>r. explain_row env_clean pred_clean j = Inr r"
  proof (intro allI impI)
    fix j :: nat
    assume "j \<le> 1"
    then have "j = 0 \<or> j = 1" by auto
    with r0 r1 show "\<exists>r. explain_row env_clean pred_clean j = Inr r" by auto
  qed
  obtain res sel where
    res: "train_and_predict fit_clean False no_shap frame_clean cfg2 = Inr res" and
    qual: "list_all (qualifies env_clean 1 [104 / 100, 0]) sel" and
    imp: "(\<forall>j\<le>1. \<exists>r. explain_row env_clean pred_clean j = Inr r) \<longrightarrow>
         tagged_loop env_clean 1 True [104 / 100, 0] (rev (argsort [104 / 100, 0])) [] = Inr sel
         \<and> predicted_churn_reason_90d res ! 1 =
              (if sel = [] then generic_reason else join ''; '' (map snd sel))
         \<and> ((\<forall>c \<in> set [104 / 100, 0 :: real]. c \<le> 0) \<longrightarrow>
               predicted_churn_reason_90d res ! 1 = generic_reason)"
    using churn_row_reasons [OF fitted_run_clean env_clean_def pred_clean_def i1 p1 c1 a1]
    by blast
  from imp reached1 have
    sel: "tagged_loop env_clean 1 True [104 / 100, 0] (rev (argsort [104 / 100, 0])) [] = Inr sel"
    and reason: "predicted_churn_reason_90d res ! 1 =
          (if sel = [] then generic_reason else join ''; '' (map snd sel))"
    by blast+
  from sel tagged_clean_1 have sel_eq: "sel = [(0, ''No purchases for 30 days'')]"
    by simp
  with qual have q: "qualifies env_clean 1 [104 / 100, 0] (0, ''No purchases for 30 days'')"
    by simp
  from sel_eq res reason have a: "map_sum id (\<lambda>res. predicted_churn_reason_90d res ! 1)
        (train_and_predict fit_clean False no_shap frame_clean cfg2)
        = Inr ''No purchases for 30 days''"
    by simp
  have p0: "pred_const ! 0 = 1"
    by (simp add: pred_const)
  have c0: "contribution env_const 0 = Inr [0, 0]"
    by (rule contribution_const_0)
  have a0: "length [0, 0 :: real] = length (feature_cols cfg2)"
    by (simp add: cfg2_def)
  have i0: "0 < length (rows frame_const)"
    by (simp add: frame_const_def)
  have reached0: "\<forall>j\<le>0. \<exists>r. explain_row env_const pred_const j = Inr r"
    using explain_row_const_0 by simp
  obtain res' sel' where
    res': "train_and_predict fit_const False no_shap frame_const cfg2 = Inr res'" and
    imp': "(\<forall>j\<le>0. \<exists>r. explain_row env_const pred_const j = Inr r) \<longrightarrow>
         tagged_loop env_const 0 True [0, 0] (rev (argsort [0, 0])) [] = Inr sel'
         \<and> predicted_churn_reason_90d res' ! 0 =
              (if sel' = [] then generic_reason else join ''; '' (map snd sel'))
         \<and> ((\<forall>c \<in> set [0, 0 :: real]. c \<le> 0) \<longrightarrow>
               predicted_churn_reason_90d res' ! 0 = generic_reason)"
    using churn_row_reasons [OF fitted_run_const env_const_def pred_const_def i0 p0 c0 a0]
    by blast
  from imp' reached0 have "(\<forall>c \<in> set [0, 0 :: real]. c \<le> 0) \<longrightarrow>
               predicted_churn_reason_90d res' ! 0 = generic_reason"
    by blast
  then have "predicted_churn_reason_90d res' ! 0 = generic_reason"
    by simp
  with res' have b: "map_sum id (\<lambda>res. predicted_churn_reason_90d res ! 0)
        (train_and_predict fit_const False no_shap frame_const cfg2) = Inr generic_reason"
    by simp
  from fitted_run_clean p1 r0 r1 c1 a1 q a fitted_run_const p0 c0 a0 b show ?thesis
    by (intro conjI)
qed


end
